theory Spec2Isabelle
  imports Main "HOL-Library.AList"
begin

section \<open>Python values used by the migration toolkit\<close>

text \<open>
  Node identifiers arrive from JSON files and API responses. They are strings
  (UUIDs) or small integers, and the toolkit normalises them with Python's
  \<open>str\<close> before comparing them.
\<close>

datatype pyid = PStr string | PInt int

fun str_nat :: "nat \<Rightarrow> string" where
  "str_nat n = (if n < 10 then [''0123456789'' ! n]
                else str_nat (n div 10) @ [''0123456789'' ! (n mod 10)])"

declare str_nat.simps [simp del]

definition str_int :: "int \<Rightarrow> string" where
  "str_int i = (if i < 0 then CHR ''-'' # str_nat (nat (- i)) else str_nat (nat i))"

fun py_str :: "pyid \<Rightarrow> string" where
  "py_str (PStr s) = s"
| "py_str (PInt i) = str_int i"

section \<open>Subgraph Composer (update\_subgraph.py)\<close>

text \<open>
  \<open>_normalize_ids(id_list)\<close> is \<open>[str(x) for x in (id_list or [])]\<close>:
  \<open>None\<close> and the empty list both give the empty list.
\<close>

fun normalize_ids :: "pyid list option \<Rightarrow> string list" where
  "normalize_ids None = []"
| "normalize_ids (Some xs) = map py_str xs"

text \<open>
  The loop of \<open>merge_steps\<close>: \<open>seen\<close> is the set of ids already appended,
  \<open>merged\<close> the list built so far.
\<close>

fun merge_loop :: "string set \<Rightarrow> string list \<Rightarrow> string list \<Rightarrow> string list" where
  "merge_loop seen merged [] = merged"
| "merge_loop seen merged (nid # rest) =
     (if nid \<notin> seen then merge_loop (insert nid seen) (merged @ [nid]) rest
      else merge_loop seen merged rest)"

definition merge_steps :: "pyid list option \<Rightarrow> pyid list option \<Rightarrow> string list" where
  "merge_steps existing_steps mapped_steps =
     merge_loop {} [] (normalize_ids existing_steps @ normalize_ids mapped_steps)"

text \<open>
  \<open>map_and_preserve_all_nodes(original_nodes, node_id_mapping, node_references)\<close>.
  The mapping file holds string keys; its values are passed through \<open>str\<close>.
  \<open>node_references\<close> is \<open>None\<close>, or a dictionary (an empty one is falsy and is
  skipped like \<open>None\<close>).
\<close>

fun map_loop ::
  "(string \<rightharpoonup> pyid) \<Rightarrow> (string \<rightharpoonup> pyid) option \<Rightarrow> string list \<Rightarrow> string list \<Rightarrow>
   pyid list \<Rightarrow> string list \<times> string list" where
  "map_loop node_id_mapping node_references mapped_nodes unmapped_nodes [] =
     (mapped_nodes, unmapped_nodes)"
| "map_loop node_id_mapping node_references mapped_nodes unmapped_nodes (node_id # rest) =
     (let key = py_str node_id in
      case node_id_mapping key of
        Some v \<Rightarrow>
          map_loop node_id_mapping node_references (mapped_nodes @ [py_str v]) unmapped_nodes rest
      | None \<Rightarrow>
          (case node_references of
             None \<Rightarrow>
               map_loop node_id_mapping node_references mapped_nodes (unmapped_nodes @ [key]) rest
           | Some refs \<Rightarrow>
               (case refs key of
                  Some r \<Rightarrow>
                    map_loop node_id_mapping node_references (mapped_nodes @ [py_str r])
                      unmapped_nodes rest
                | None \<Rightarrow>
                    map_loop node_id_mapping node_references mapped_nodes
                      (unmapped_nodes @ [key]) rest)))"

definition map_and_preserve_all_nodes ::
  "pyid list \<Rightarrow> (string \<rightharpoonup> pyid) \<Rightarrow> (string \<rightharpoonup> pyid) option \<Rightarrow> string list \<times> nat" where
  "map_and_preserve_all_nodes original_nodes node_id_mapping node_references =
     (let (mapped_nodes, unmapped_nodes) =
            map_loop node_id_mapping node_references [] [] original_nodes
      in (mapped_nodes @ unmapped_nodes, length unmapped_nodes))"

text \<open>
  The member mapping of \<open>create_subgraphs_from_original\<close>
  (universal\_node\_creator.py): a step with a mapping entry is replaced by the new
  id, a step without one is counted and left out of \<open>mapped_steps\<close>.
\<close>

fun map_original_steps ::
  "(string \<rightharpoonup> string) \<Rightarrow> string list \<Rightarrow> nat \<Rightarrow> pyid list \<Rightarrow> string list \<times> nat" where
  "map_original_steps node_id_mapping mapped_steps unmapped_count [] =
     (mapped_steps, unmapped_count)"
| "map_original_steps node_id_mapping mapped_steps unmapped_count (step # rest) =
     (let original_id = py_str step in
      case node_id_mapping original_id of
        Some new_id \<Rightarrow>
          map_original_steps node_id_mapping (mapped_steps @ [new_id]) unmapped_count rest
      | None \<Rightarrow>
          map_original_steps node_id_mapping mapped_steps (unmapped_count + 1) rest)"

text \<open>
  The target of one member in \<open>map_and_preserve_all_nodes\<close>: the mapped id,
  else the referenced stage or source node, else nothing.
\<close>

definition member_target ::
  "(string \<rightharpoonup> pyid) \<Rightarrow> (string \<rightharpoonup> pyid) option \<Rightarrow> pyid \<Rightarrow> string option" where
  "member_target node_id_mapping node_references node_id =
     (case node_id_mapping (py_str node_id) of
        Some v \<Rightarrow> Some (py_str v)
      | None \<Rightarrow>
          (case node_references of
             None \<Rightarrow> None
           | Some refs \<Rightarrow> map_option py_str (refs (py_str node_id))))"

section \<open>Node data as decoded from JSON\<close>

text \<open>
  JSON values whose Python type the code inspects (\<open>isinstance\<close>, truthiness,
  \<open>str\<close>). JSON numbers are integers here; floating-point numbers are left out.
\<close>

datatype jval =
    JNull
  | JBool bool
  | JInt int
  | JStr string
  | JList "jval list"
  | JDict "(string \<times> jval) list"

fun truthy :: "jval \<Rightarrow> bool" where
  "truthy JNull = False"
| "truthy (JBool b) = b"
| "truthy (JInt i) = (i \<noteq> 0)"
| "truthy (JStr s) = (s \<noteq> [])"
| "truthy (JList xs) = (xs \<noteq> [])"
| "truthy (JDict kvs) = (kvs \<noteq> [])"

text \<open>
  \<open>str(v)\<close> for a value that passes \<open>isinstance(v, (str, int, float, bool))\<close>;
  \<open>None\<close> for a value that does not pass the test.
\<close>

fun str_simple :: "jval \<Rightarrow> string option" where
  "str_simple (JStr s) = Some s"
| "str_simple (JInt i) = Some (str_int i)"
| "str_simple (JBool b) = Some (if b then ''True'' else ''False'')"
| "str_simple v = None"

fun is_bool :: "jval \<Rightarrow> bool" where
  "is_bool (JBool b) = True"
| "is_bool v = False"

fun is_dict :: "jval \<Rightarrow> bool" where
  "is_dict (JDict kvs) = True"
| "is_dict v = False"

text \<open>
  A dictionary field that may be absent is an \<open>option\<close>: \<open>None\<close> when the key
  is missing. Identifier fields (\<open>nodeID\<close>, \<open>columnID\<close>) are strings; \<open>None\<close>
  also stands for JSON \<open>null\<close> there, which \<open>dict.get\<close> returns as Python
  \<open>None\<close>.
\<close>

record column_reference =
  ref_nodeID :: "string option"
  ref_columnID :: "string option"

record source =
  src_transform :: "string option"
  src_columnReferences :: "column_reference list option"

record column =
  col_name :: "string option"
  col_dataType :: "string option"
  col_nullable :: "bool option"
  col_description :: "string option"
  col_columnID :: "pyid option"
  col_defaultValue :: "jval option"
  col_primaryKey :: "jval option"
  col_sources :: "source list option"
  col_config :: "jval option"

text \<open>
  A \<open>sourceMapping\<close> entry. \<open>aliases\<close> maps an alias name to a node id; a Python
  dictionary keeps its keys in insertion order, so it is an association list.
\<close>

record source_mapping =
  sm_aliases :: "(string \<times> string) list option"
  sm_customSQL :: "jval option"
  sm_dependencies :: "jval option"
  sm_join :: "jval option"
  sm_name :: "string option"
  sm_noLinkRefs :: "jval option"

record metadata =
  md_columns :: "column list option"
  md_sourceMapping :: "source_mapping list option"
  md_cteString :: "jval option"
  md_appliedNodeTests :: "jval option"
  md_enabledColumnTestIDs :: "jval option"

text \<open>
  A node dictionary. Exported files name the type \<open>nodeType\<close>, the API's node
  representation names it \<open>type\<close>. \<open>nd_other\<close> holds every key not named here.
\<close>

record node =
  nd_name :: "string option"
  nd_nodeType :: "string option"
  nd_type :: "string option"
  nd_metadata :: "metadata option"
  nd_config :: "(string \<times> jval) list option"
  nd_other :: "(string \<times> jval) list"

text \<open>Truthiness of a node dictionary: it has at least one key.\<close>

definition node_truthy :: "node \<Rightarrow> bool" where
  "node_truthy n \<longleftrightarrow>
     nd_name n \<noteq> None \<or> nd_nodeType n \<noteq> None \<or> nd_type n \<noteq> None \<or>
     nd_metadata n \<noteq> None \<or> nd_config n \<noteq> None \<or> nd_other n \<noteq> []"

text \<open>\<open>d.get(key, [])\<close> for a list-valued key.\<close>

fun get_list :: "'a list option \<Rightarrow> 'a list" where
  "get_list None = []"
| "get_list (Some xs) = xs"

text \<open>\<open>d.get(key, default)\<close>.\<close>

fun get_or :: "'a option \<Rightarrow> 'a \<Rightarrow> 'a" where
  "get_or None d = d"
| "get_or (Some x) d = x"

text \<open>
  A Python \<open>set\<close> of strings is a list without repetitions; \<open>set_add\<close> is
  \<open>s.add(x)\<close> and \<open>set_update\<close> is \<open>s.update(xs)\<close>. The order of the list stands
  for the order in which Python happens to iterate over the set.
\<close>

definition set_add :: "string list \<Rightarrow> string \<Rightarrow> string list" where
  "set_add s x = (if x \<in> set s then s else s @ [x])"

definition set_update :: "string list \<Rightarrow> string list \<Rightarrow> string list" where
  "set_update s xs = fold (\<lambda>x acc. set_add acc x) xs s"

section \<open>Dependency analysis and Creation Scheduler (universal\_node\_creator.py)\<close>

text \<open>
  \<open>all_nodes\<close> is a dictionary from node id to node data, \<open>dependencies\<close> one
  from node id to a list of node ids; both are association lists in insertion order.
\<close>

type_synonym all_nodes = "(string \<times> node) list"
type_synonym dependencies = "(string \<times> string list) list"

text \<open>The column references of a node, in the order of the three nested loops.\<close>

definition node_col_refs :: "node \<Rightarrow> column_reference list" where
  "node_col_refs node_data =
     (let metadata = nd_metadata node_data;
          columns = (case metadata of None \<Rightarrow> [] | Some md \<Rightarrow> get_list (md_columns md))
      in concat (map (\<lambda>column.
           concat (map (\<lambda>source. get_list (src_columnReferences source))
                       (get_list (col_sources column))))
           columns))"

text \<open>
  The body of the loop over \<open>col_refs\<close>: \<open>predecessor_id\<close> is added when it is
  truthy and differs from \<open>node_id\<close>.
\<close>

fun add_predecessors :: "string \<Rightarrow> string list \<Rightarrow> column_reference list \<Rightarrow> string list" where
  "add_predecessors node_id predecessors [] = predecessors"
| "add_predecessors node_id predecessors (col_ref # rest) =
     (case ref_nodeID col_ref of
        None \<Rightarrow> add_predecessors node_id predecessors rest
      | Some predecessor_id \<Rightarrow>
          (if predecessor_id \<noteq> [] \<and> predecessor_id \<noteq> node_id
           then add_predecessors node_id (set_add predecessors predecessor_id) rest
           else add_predecessors node_id predecessors rest))"

definition node_dependencies :: "all_nodes \<Rightarrow> string \<Rightarrow> node \<Rightarrow> string list" where
  "node_dependencies all_nodes node_id node_data =
     (let predecessors = add_predecessors node_id [] (node_col_refs node_data);
          valid_predecessors = filter (\<lambda>pid. pid \<in> fst ` set all_nodes) predecessors
      in valid_predecessors)"

definition analyze_dependencies :: "all_nodes \<Rightarrow> dependencies" where
  "analyze_dependencies all_nodes =
     map (\<lambda>(node_id, node_data). (node_id, node_dependencies all_nodes node_id node_data))
         all_nodes"

subsection \<open>The remote platform and the creator's state\<close>

text \<open>
  The HTTP requests the creator sends: the creation \<open>POST\<close> with its payload
  (\<open>nodeType\<close>, \<open>predecessorNodeIDs\<close>) and the configuration \<open>PUT\<close> on a new
  node, with or without hash keys (the rest of the \<open>PUT\<close> payload is left out).
  A request raises (transport failure, undecodable body) or returns a status code;
  for a creation the response also carries the \<open>id\<close> of its body, when it has one.
  The platform is any function of the requests received so far and the present one.
\<close>

datatype request =
    PostNode string string "string list"
  | PutNode string string bool

datatype response = Raises | Response nat "string option"

type_synonym platform = "request list \<Rightarrow> request \<Rightarrow> response"

datatype error_kind = node_creation | cleaned_config_update | exception

record creation_error =
  err_type :: error_kind
  err_original_id :: string
  err_new_id :: "string option"

record created_node =
  cn_original_id :: string
  cn_new_id :: string
  cn_predecessor_count :: nat
  cn_hash_keys_included :: bool

text \<open>
  The attributes of \<open>EnhancedNodeCreator\<close> that creation reads and writes, and
  the requests sent so far (the creator's effect on the target workspace).
\<close>

record creator =
  node_id_mapping :: "(string \<times> string) list"
  created_nodes :: "created_node list"
  creation_errors :: "creation_error list"
  hash_key_success :: "string list"
  hash_key_failures :: "string list"
  test_hash_keys :: bool
  requests_sent :: "request list"

definition new_creator :: creator where
  "new_creator = \<lparr>node_id_mapping = [], created_nodes = [], creation_errors = [],
     hash_key_success = [], hash_key_failures = [], test_hash_keys = True,
     requests_sent = []\<rparr>"

definition send :: "platform \<Rightarrow> request \<Rightarrow> creator \<Rightarrow> response \<times> creator" where
  "send platform req st =
     (platform (requests_sent st) req, st\<lparr>requests_sent := requests_sent st @ [req]\<rparr>)"

definition ok_status :: "nat \<Rightarrow> bool" where
  "ok_status code \<longleftrightarrow> code = 200 \<or> code = 201"

text \<open>\<open>f"new_{n:03d}"\<close>.\<close>

definition fake_id :: "nat \<Rightarrow> string" where
  "fake_id n = ''new_'' @ replicate (3 - length (str_nat n)) (CHR ''0'') @ str_nat n"

text \<open>The \<open>except Exception\<close> handler of \<open>create_node_via_api\<close>.\<close>

definition on_exception :: "string \<Rightarrow> creator \<Rightarrow> string option \<times> creator" where
  "on_exception node_id st =
     (None, st\<lparr>creation_errors := creation_errors st @
        [\<lparr>err_type = exception, err_original_id = node_id, err_new_id = None\<rparr>]\<rparr>)"

text \<open>
  Step 2 of \<open>create_node_via_api\<close>, after the new id is in the mapping: the
  configuration with hash keys when \<open>test_hash_keys\<close> is set, the cleaned
  configuration when that did not succeed, then the entry in \<open>created_nodes\<close>.
\<close>

definition finish_created ::
  "string \<Rightarrow> string \<Rightarrow> nat \<Rightarrow> bool \<Rightarrow> creator \<Rightarrow> string option \<times> creator" where
  "finish_created node_id new_node_id npred hash_success st =
     (Some new_node_id, st\<lparr>created_nodes := created_nodes st @
        [\<lparr>cn_original_id = node_id, cn_new_id = new_node_id,
          cn_predecessor_count = npred, cn_hash_keys_included = hash_success\<rparr>]\<rparr>)"

definition step2b ::
  "platform \<Rightarrow> string \<Rightarrow> string \<Rightarrow> string \<Rightarrow> nat \<Rightarrow> creator \<Rightarrow> string option \<times> creator" where
  "step2b platform workspace_id node_id new_node_id npred st =
     (case send platform (PutNode workspace_id new_node_id False) st of
        (Raises, st1) \<Rightarrow> on_exception node_id st1
      | (Response code body, st1) \<Rightarrow>
          (if \<not> ok_status code
           then finish_created node_id new_node_id npred False
                  (st1\<lparr>creation_errors := creation_errors st1 @
                     [\<lparr>err_type = cleaned_config_update, err_original_id = node_id,
                       err_new_id = Some new_node_id\<rparr>]\<rparr>)
           else finish_created node_id new_node_id npred False st1))"

definition step2 ::
  "platform \<Rightarrow> string \<Rightarrow> string \<Rightarrow> string \<Rightarrow> nat \<Rightarrow> creator \<Rightarrow> string option \<times> creator" where
  "step2 platform workspace_id node_id new_node_id npred st =
     (if test_hash_keys st then
        (case send platform (PutNode workspace_id new_node_id True) st of
           (Raises, st1) \<Rightarrow> on_exception node_id st1
         | (Response code body, st1) \<Rightarrow>
             (if ok_status code
              then finish_created node_id new_node_id npred True
                     (st1\<lparr>hash_key_success := hash_key_success st1 @ [new_node_id]\<rparr>)
              else step2b platform workspace_id node_id new_node_id npred
                     (st1\<lparr>hash_key_failures := hash_key_failures st1 @ [new_node_id]\<rparr>)))
      else step2b platform workspace_id node_id new_node_id npred st)"

text \<open>
  \<open>create_node_via_api\<close>. The result is the new id when the Python function
  returns a dictionary (which then holds that id and is truthy), \<open>None\<close> when it
  returns \<open>None\<close>.
\<close>

definition create_node_via_api ::
  "platform \<Rightarrow> string \<Rightarrow> string \<Rightarrow> node \<Rightarrow> string list \<Rightarrow> bool \<Rightarrow> creator \<Rightarrow>
   string option \<times> creator" where
  "create_node_via_api platform workspace_id node_id node_data predecessor_ids dry_run st =
     (let node_type = get_or (nd_nodeType node_data) ''Stage'' in
      if dry_run then
        (let fake_new_id = fake_id (length (node_id_mapping st) + 1) in
         (Some fake_new_id,
          st\<lparr>node_id_mapping := AList.update node_id fake_new_id (node_id_mapping st)\<rparr>))
      else
        (case send platform (PostNode workspace_id node_type predecessor_ids) st of
           (Raises, st1) \<Rightarrow> on_exception node_id st1
         | (Response code body, st1) \<Rightarrow>
             (if \<not> ok_status code then
                (None, st1\<lparr>creation_errors := creation_errors st1 @
                   [\<lparr>err_type = node_creation, err_original_id = node_id,
                     err_new_id = None\<rparr>]\<rparr>)
              else
                (case body of
                   None \<Rightarrow> (None, st1)
                 | Some new_node_id \<Rightarrow>
                     (if new_node_id = [] then (None, st1)
                      else step2 platform workspace_id node_id new_node_id
                             (length predecessor_ids)
                             (st1\<lparr>node_id_mapping :=
                                AList.update node_id new_node_id (node_id_mapping st1)\<rparr>))))))"

subsection \<open>The creation rounds\<close>

definition deps_get :: "dependencies \<Rightarrow> string \<Rightarrow> string list" where
  "deps_get dependencies node_id = get_or (map_of dependencies node_id) []"

definition in_mapping :: "creator \<Rightarrow> string \<Rightarrow> bool" where
  "in_mapping st node_id \<longleftrightarrow> map_of (node_id_mapping st) node_id \<noteq> None"

text \<open>\<open>[dep for dep in node_deps if dep not in self.node_id_mapping]\<close>.\<close>

definition unsatisfied_deps :: "dependencies \<Rightarrow> creator \<Rightarrow> string \<Rightarrow> string list" where
  "unsatisfied_deps dependencies st node_id =
     filter (\<lambda>dep. \<not> in_mapping st dep) (deps_get dependencies node_id)"

text \<open>
  The nodes a round creates: the ready ones, or, when none is ready, the ones with
  the least number of unsatisfied dependencies. \<open>remaining_nodes\<close> keeps every
  remaining key together with its entry of \<open>all_nodes\<close>; it is not empty here
  (the loop condition), so \<open>min\<close> has an argument.
\<close>

definition ready_nodes_of ::
  "dependencies \<Rightarrow> creator \<Rightarrow> (string \<times> node) list \<Rightarrow> (string \<times> node) list" where
  "ready_nodes_of dependencies st remaining_nodes =
     filter (\<lambda>(node_id, node_data). unsatisfied_deps dependencies st node_id = [])
            remaining_nodes"

definition select_ready ::
  "dependencies \<Rightarrow> creator \<Rightarrow> (string \<times> node) list \<Rightarrow> (string \<times> node) list" where
  "select_ready dependencies st remaining_nodes =
     (let ready_nodes = ready_nodes_of dependencies st remaining_nodes
      in if ready_nodes = [] then
           (let min_deps =
                  min_list (map (\<lambda>(nid, node_data).
                                   length (unsatisfied_deps dependencies st nid))
                                remaining_nodes)
            in filter (\<lambda>(nid, node_data).
                         length (unsatisfied_deps dependencies st nid) = min_deps)
                      remaining_nodes)
         else ready_nodes)"

text \<open>
  \<open>[self.node_id_mapping.get(dep_id, dep_id) for dep_id in original_deps
     if dep_id in self.node_id_mapping]\<close>.
\<close>

definition mapped_deps :: "dependencies \<Rightarrow> creator \<Rightarrow> string \<Rightarrow> string list" where
  "mapped_deps dependencies st node_id =
     map (\<lambda>dep_id. get_or (map_of (node_id_mapping st) dep_id) dep_id)
         (filter (\<lambda>dep_id. in_mapping st dep_id) (deps_get dependencies node_id))"

text \<open>
  The loop over \<open>ready_nodes\<close>. Its state: the creator, the remaining nodes,
  \<open>created_count\<close> and \<open>round_success\<close>.
\<close>

fun create_ready ::
  "platform \<Rightarrow> string \<Rightarrow> dependencies \<Rightarrow> bool \<Rightarrow> (string \<times> node) list \<Rightarrow>
   creator \<times> (string \<times> node) list \<times> nat \<times> nat \<Rightarrow>
   creator \<times> (string \<times> node) list \<times> nat \<times> nat" where
  "create_ready platform workspace_id dependencies dry_run []
     (st, remaining_nodes, created_count, round_success) =
     (st, remaining_nodes, created_count, round_success)"
| "create_ready platform workspace_id dependencies dry_run ((node_id, node_data) # rest)
     (st, remaining_nodes, created_count, round_success) =
     (let (result, st') =
            create_node_via_api platform workspace_id node_id node_data
              (mapped_deps dependencies st node_id) dry_run st;
          remaining' = filter (\<lambda>(nid, nd). nid \<noteq> node_id) remaining_nodes
      in create_ready platform workspace_id dependencies dry_run rest
           (if result \<noteq> None
            then (st', remaining', created_count + 1, round_success + 1)
            else (st', remaining', created_count, round_success)))"






section \<open>Example data\<close>

text \<open>Builders for the node dictionaries used in the worked examples.\<close>

definition mk_ref :: "string \<Rightarrow> string \<Rightarrow> column_reference" where
  "mk_ref node_id column_id = \<lparr>ref_nodeID = Some node_id, ref_columnID = Some column_id\<rparr>"

definition mk_column :: "string \<Rightarrow> column_reference list \<Rightarrow> column" where
  "mk_column name refs =
     \<lparr>col_name = Some name, col_dataType = Some ''VARCHAR'', col_nullable = Some True,
      col_description = None, col_columnID = None, col_defaultValue = None,
      col_primaryKey = None,
      col_sources = Some [\<lparr>src_transform = Some [], src_columnReferences = Some refs\<rparr>],
      col_config = None\<rparr>"

definition mk_metadata :: "column list \<Rightarrow> metadata" where
  "mk_metadata columns =
     \<lparr>md_columns = Some columns, md_sourceMapping = None, md_cteString = None,
      md_appliedNodeTests = None, md_enabledColumnTestIDs = None\<rparr>"

definition mk_node :: "string \<Rightarrow> string \<Rightarrow> column_reference list \<Rightarrow> node" where
  "mk_node name node_type refs =
     \<lparr>nd_name = Some name, nd_nodeType = Some node_type, nd_type = Some node_type,
      nd_metadata = Some (mk_metadata [mk_column ''C1'' refs]),
      nd_config = None, nd_other = []\<rparr>"

text \<open>
  A hub without lineage and a satellite that refers to the hub, to itself and to a
  stage node that is not part of the node set.
\<close>

definition ex_hub :: node where
  "ex_hub = mk_node ''H_CUSTOMER'' ''Hub'' []"

definition ex_sat :: node where
  "ex_sat = mk_node ''S_CUSTOMER_CURRENT'' ''Satellite''
              [mk_ref ''hub'' ''c1'', mk_ref ''sat'' ''c2'', mk_ref ''stg'' ''c3'']"

text \<open>A satellite whose lineage refers only to itself and to the absent stage node.\<close>

definition ex_self :: node where
  "ex_self = mk_node ''S_SELF'' ''Satellite'' [mk_ref ''self'' ''c1'', mk_ref ''stg'' ''c3'']"

definition ex_nodes :: all_nodes where
  "ex_nodes = [(''sat'', ex_sat), (''hub'', ex_hub), (''self'', ex_self)]"






section \<open>The scheduler's invariant\<close>






section \<open>Node Store and Dependency Resolver (universal\_subgraph\_migration.py)\<close>

subsection \<open>The Node Store: \<open>_get_node_details\<close>\<close>

text \<open>
  What \<open>requests.get\<close> followed by \<open>response.json()\<close> yields for a workspace
  and a node id: either one of the two raises (\<open>GetRaises\<close>, with \<open>str(e)\<close>), or
  there is a status code and \<open>node_info = node_data.get('data', node_data)\<close>, the
  node of the decoded body. A workspace snapshot is a function: the same pair
  always yields the same answer.
\<close>

datatype get_response = GetRaises string | GetResponse nat node

type_synonym remote = "string \<Rightarrow> string \<Rightarrow> get_response"

text \<open>
  An entry of \<open>failed_node_downloads\<close>; its third field, \<open>action_required\<close>, is
  always the same text and is left out.
\<close>

record download_failure =
  df_node_id :: string
  df_error :: string

text \<open>
  The state of the migrator that \<open>_get_node_details\<close> reads and writes: the
  dictionary \<open>node_cache\<close>, the list \<open>failed_node_downloads\<close> (empty when the
  attribute does not exist yet), and the remote reads performed so far, as
  (workspace, node id) pairs.
\<close>

record store =
  node_cache :: "(string \<times> node) list"
  failed_node_downloads :: "download_failure list"
  reads_sent :: "(string \<times> string) list"

definition new_store :: store where
  "new_store = \<lparr>node_cache = [], failed_node_downloads = [], reads_sent = []\<rparr>"

text \<open>\<open>cache_key = f"{workspace_id}_{node_id}"\<close>.\<close>

definition cache_key :: "string \<Rightarrow> string \<Rightarrow> string" where
  "cache_key workspace_id node_id = workspace_id @ ''_'' @ node_id"

definition record_failure :: "string \<Rightarrow> string \<Rightarrow> store \<Rightarrow> store" where
  "record_failure node_id error st =
     st\<lparr>failed_node_downloads :=
          failed_node_downloads st @ [\<lparr>df_node_id = node_id, df_error = error\<rparr>]\<rparr>"

definition get_node_details ::
  "remote \<Rightarrow> string \<Rightarrow> string \<Rightarrow> store \<Rightarrow> node option \<times> store" where
  "get_node_details remote workspace_id node_id st =
     (case map_of (node_cache st) (cache_key workspace_id node_id) of
        Some cached \<Rightarrow> (Some cached, st)
      | None \<Rightarrow>
          (let st1 = st\<lparr>reads_sent := reads_sent st @ [(workspace_id, node_id)]\<rparr>
           in case remote workspace_id node_id of
                GetRaises e \<Rightarrow> (None, record_failure node_id e st1)
              | GetResponse status_code node_info \<Rightarrow>
                  if status_code = 200
                  then (Some node_info,
                        st1\<lparr>node_cache :=
                              AList.update (cache_key workspace_id node_id) node_info
                                (node_cache st1)\<rparr>)
                  else (None, record_failure node_id (''HTTP '' @ str_nat status_code) st1)))"

subsection \<open>Dependencies of a node: \<open>_extract_dependencies_from_node\<close>\<close>

text \<open>The test \<open>'-' in node_id and len(node_id) > 30\<close>.\<close>

definition looks_like_uuid :: "string \<Rightarrow> bool" where
  "looks_like_uuid node_id \<longleftrightarrow> CHR ''-'' \<in> set node_id \<and> length node_id > 30"

definition add_reference :: "column_reference \<Rightarrow> string list \<Rightarrow> string list" where
  "add_reference col_ref dependencies =
     (case ref_nodeID col_ref of
        None \<Rightarrow> dependencies
      | Some node_id \<Rightarrow>
          if node_id \<noteq> [] \<and> looks_like_uuid node_id then set_add dependencies node_id
          else dependencies)"

definition add_alias :: "string \<times> string \<Rightarrow> string list \<Rightarrow> string list" where
  "add_alias alias dependencies =
     (if snd alias \<noteq> [] \<and> looks_like_uuid (snd alias) then set_add dependencies (snd alias)
      else dependencies)"

definition extract_dependencies_from_node :: "node option \<Rightarrow> string list" where
  "extract_dependencies_from_node node_data =
     (case node_data of
        None \<Rightarrow> []
      | Some nd \<Rightarrow>
          if \<not> node_truthy nd then []
          else
            (let columns = (case nd_metadata nd of None \<Rightarrow> []
                            | Some m \<Rightarrow> get_list (md_columns m));
                 source_mappings = (case nd_metadata nd of None \<Rightarrow> []
                                    | Some m \<Rightarrow> get_list (md_sourceMapping m));
                 dependencies =
                   fold (\<lambda>column. fold (\<lambda>source. fold add_reference
                                                  (get_list (src_columnReferences source)))
                                      (get_list (col_sources column)))
                        columns []
             in fold (\<lambda>mapping. fold add_alias (get_list (sm_aliases mapping)))
                     source_mappings dependencies))"

subsection \<open>The Migratability Classifier\<close>

text \<open>\<open>str.lower()\<close> on ASCII text, and the substring test \<open>pattern in text\<close>.\<close>

definition lower_char :: "char \<Rightarrow> char" where
  "lower_char c =
     (if 65 \<le> (of_char c :: nat) \<and> (of_char c :: nat) \<le> 90
      then char_of ((of_char c :: nat) + 32) else c)"

definition lower :: "string \<Rightarrow> string" where
  "lower s = map lower_char s"

fun contains :: "string \<Rightarrow> string \<Rightarrow> bool" where
  "contains pattern [] = (pattern = [])"
| "contains pattern (c # cs) =
     (take (length pattern) (c # cs) = pattern \<or> contains pattern cs)"

text \<open>
  \<open>_is_api_migratable_node\<close>. No function of the module calls it.
\<close>

definition non_migratable_types :: "string list" where
  "non_migratable_types =
     [''source'', ''source_table'', ''source_mapping'', ''stage'', ''stage_table'',
      ''staging'', ''raw'']"

definition stage_patterns :: "string list" where
  "stage_patterns = [''stage_'', ''stg_'', ''_stage'', ''_stg'', ''staging_'']"

definition is_api_migratable_node :: "node option \<Rightarrow> string \<Rightarrow> bool" where
  "is_api_migratable_node node_data node_id =
     (case node_data of
        None \<Rightarrow> False
      | Some nd \<Rightarrow>
          if \<not> node_truthy nd then False
          else
            (let node_type = lower (get_or (nd_type nd) '''');
                 node_name = lower (get_or (nd_name nd) '''');
                 config = get_or (nd_config nd) []
             in if node_type \<in> set non_migratable_types then False
                else if (\<exists>pattern \<in> set stage_patterns. contains pattern node_name) \<and>
                        (contains ''stage'' node_type \<or> contains ''stg'' node_type)
                then False
                else if map_of config ''materialized'' = Some (JStr ''source'') \<or>
                        (case map_of config ''is_source'' of None \<Rightarrow> False
                         | Some v \<Rightarrow> truthy v)
                then False
                else True))"

text \<open>
  An entry of \<open>manual_required\<close>; its field \<open>action\<close> is always the same text
  and is left out.
\<close>

record manual_entry =
  me_node_id :: string
  me_node_name :: string
  me_type :: string
  me_reason :: string

text \<open>
  \<open>_categorize_dependencies\<close>: one step of its loop, for the sets and lists
  \<open>api_migratable\<close>, \<open>manual_required\<close>, \<open>failed_analysis\<close> and the store.
\<close>

definition not_uuid_reference :: "string \<Rightarrow> bool" where
  "not_uuid_reference node_id \<longleftrightarrow>
     CHR ''.'' \<in> set node_id \<or> \<not> CHR ''-'' \<in> set node_id \<or> length node_id < 30"

definition categorize_node ::
  "remote \<Rightarrow> string \<Rightarrow> string \<Rightarrow>
   string list \<times> manual_entry list \<times> string list \<times> store \<Rightarrow>
   string list \<times> manual_entry list \<times> string list \<times> store" where
  "categorize_node remote workspace_id node_id s =
     (case s of (api_migratable, manual_required, failed_analysis, st) \<Rightarrow>
        if not_uuid_reference node_id then s
        else
          (case get_node_details remote workspace_id node_id st of
             (None, st') \<Rightarrow> (api_migratable, manual_required, failed_analysis @ [node_id], st')
           | (Some nd, st') \<Rightarrow>
               if \<not> node_truthy nd
               then (api_migratable, manual_required, failed_analysis @ [node_id], st')
               else
                 (let node_type = lower (get_or (nd_type nd) '''')
                  in if node_type \<in> set [''source'', ''stage''] \<and>
                        (\<exists>word \<in> set [''raw'', ''src_'']. contains word node_type)
                     then (api_migratable,
                           manual_required @
                             [\<lparr>me_node_id = node_id,
                               me_node_name = get_or (nd_name nd) node_id,
                               me_type = node_type,
                               me_reason = ''Node type '' @ [CHR 0x27] @ node_type @ [CHR 0x27] @
                                           '' may not be API compatible''\<rparr>],
                           failed_analysis, st')
                     else (set_add api_migratable node_id, manual_required,
                           failed_analysis, st'))))"

definition categorize_dependencies ::
  "remote \<Rightarrow> string \<Rightarrow> string list \<Rightarrow> store \<Rightarrow>
   string list \<times> manual_entry list \<times> string list \<times> store" where
  "categorize_dependencies remote workspace_id all_dependencies st =
     fold (categorize_node remote workspace_id) all_dependencies ([], [], [], st)"

subsection \<open>The Dependency Resolver: \<open>_resolve_all_dependencies\<close>\<close>

text \<open>
  One step of the loop over \<open>nodes_to_process\<close>, for the store, the set
  \<open>new_dependencies\<close> and the set \<open>processed_nodes\<close>.
\<close>

definition process_node ::
  "remote \<Rightarrow> string \<Rightarrow> string \<Rightarrow> store \<times> string list \<times> string list \<Rightarrow>
   store \<times> string list \<times> string list" where
  "process_node remote workspace_id node_id s =
     (case s of (st, new_dependencies, processed_nodes) \<Rightarrow>
        (case get_node_details remote workspace_id node_id st of
           (node_data, st') \<Rightarrow>
             (st',
              (if (case node_data of None \<Rightarrow> False | Some nd \<Rightarrow> node_truthy nd)
               then set_update new_dependencies (extract_dependencies_from_node node_data)
               else new_dependencies),
              set_add processed_nodes node_id)))"

text \<open>
  The \<open>while\<close> loop, with \<open>max_depth - current_depth\<close> as the first argument.
  Its state: the store, \<open>all_discovered_nodes\<close>, \<open>processed_nodes\<close>,
  \<open>current_depth\<close>, and the list of the sets \<open>nodes_to_process\<close> of the rounds run
  so far (the loop prints one line for each).
\<close>

fun resolve_loop ::
  "nat \<Rightarrow> remote \<Rightarrow> string \<Rightarrow>
   store \<times> string list \<times> string list \<times> nat \<times> string list list \<Rightarrow>
   store \<times> string list \<times> string list \<times> nat \<times> string list list" where
  "resolve_loop 0 remote workspace_id s = s"
| "resolve_loop (Suc depth_left) remote workspace_id
     (st, all_discovered_nodes, processed_nodes, current_depth, rounds) =
     (let nodes_to_process = filter (\<lambda>n. n \<notin> set processed_nodes) all_discovered_nodes
      in if nodes_to_process = []
         then (st, all_discovered_nodes, processed_nodes, current_depth, rounds)
         else
           (case fold (process_node remote workspace_id) nodes_to_process
                   (st, [], processed_nodes) of
              (st', new_dependencies, processed') \<Rightarrow>
                if new_dependencies \<noteq> []
                then resolve_loop depth_left remote workspace_id
                       (st', set_update all_discovered_nodes new_dependencies, processed',
                        current_depth + 1, rounds @ [nodes_to_process])
                else (st', all_discovered_nodes, processed', current_depth,
                      rounds @ [nodes_to_process])))"

text \<open>
  The loop started as \<open>_resolve_all_dependencies\<close> starts it, with
  \<open>all_discovered_nodes = set(str(node) for node in initial_nodes)\<close>.
\<close>

definition discover ::
  "remote \<Rightarrow> string \<Rightarrow> pyid list \<Rightarrow> nat \<Rightarrow> store \<Rightarrow>
   store \<times> string list \<times> string list \<times> nat \<times> string list list" where
  "discover remote workspace_id initial_nodes max_depth st =
     resolve_loop max_depth remote workspace_id
       (st, set_update [] (map py_str initial_nodes), [], 0, [])"

record resolution =
  all_discovered :: "string list"
  api_migratable :: "string list"
  manual_required :: "manual_entry list"
  failed_analysis :: "string list"

definition resolve_all_dependencies ::
  "remote \<Rightarrow> string \<Rightarrow> pyid list \<Rightarrow> nat \<Rightarrow> store \<Rightarrow> resolution \<times> store" where
  "resolve_all_dependencies remote workspace_id initial_nodes max_depth st =
     (case discover remote workspace_id initial_nodes max_depth st of
        (st1, all_discovered_nodes, processed_nodes, current_depth, rounds) \<Rightarrow>
          (case categorize_dependencies remote workspace_id all_discovered_nodes st1 of
             (api, manual, failed, st2) \<Rightarrow>
               (\<lparr>all_discovered = all_discovered_nodes, api_migratable = api,
                 manual_required = manual, failed_analysis = failed\<rparr>, st2)))"

subsection \<open>A workspace snapshot\<close>

text \<open>
  Node \<open>A\<close> refers to node \<open>B\<close> and \<open>B\<close> refers to \<open>A\<close> and to a node \<open>C\<close>.
  The platform returns \<open>A\<close> (a dimension) and \<open>B\<close> (of type \<open>Source\<close>); reading
  \<open>C\<close> raises, and every other id is answered with status 404.
\<close>

definition uuid_a :: string where
  "uuid_a = ''aaaaaaaa-0000-4000-8000-000000000001''"

definition uuid_b :: string where
  "uuid_b = ''bbbbbbbb-0000-4000-8000-000000000002''"

definition uuid_c :: string where
  "uuid_c = ''cccccccc-0000-4000-8000-000000000003''"

definition uuid_d :: string where
  "uuid_d = ''dddddddd-0000-4000-8000-000000000004''"

definition empty_node :: node where
  "empty_node = \<lparr>nd_name = None, nd_nodeType = None, nd_type = None, nd_metadata = None,
                  nd_config = None, nd_other = []\<rparr>"

definition node_a :: node where
  "node_a = mk_node ''DIM_A'' ''Dimension'' [mk_ref uuid_b ''c1'']"

definition node_b :: node where
  "node_b = mk_node ''SRC_B'' ''Source'' [mk_ref uuid_a ''c1'', mk_ref uuid_c ''c2'']"

definition ex_remote :: remote where
  "ex_remote workspace_id node_id =
     (if node_id = uuid_a then GetResponse 200 node_a
      else if node_id = uuid_b then GetResponse 200 node_b
      else if node_id = uuid_c then GetRaises ''connection reset''
      else GetResponse 404 empty_node)"

text \<open>A platform that knows node \<open>c\<close> of workspace \<open>a_b\<close> and nothing else.\<close>

definition ex_remote_one :: remote where
  "ex_remote_one workspace_id node_id =
     (if workspace_id = ''a_b'' \<and> node_id = ''c'' then GetResponse 200 node_a
      else GetResponse 404 empty_node)"

text \<open>
  Two stores give the same answers for a workspace when \<open>_get_node_details\<close>
  returns the same result from both, for every node id.
\<close>

definition same_answers :: "remote \<Rightarrow> string \<Rightarrow> store \<Rightarrow> store \<Rightarrow> bool" where
  "same_answers remote workspace_id st st' \<longleftrightarrow>
     (\<forall>node_id. fst (get_node_details remote workspace_id node_id st) =
                fst (get_node_details remote workspace_id node_id st'))"

section \<open>Reference Remapper (universal\_metadata\_updater.py)\<close>

text \<open>
  \<open>build_proper_metadata(original_node_data, node_id_mapping)\<close>. The mapping is a
  dictionary from old node ids to new node ids;
  \<open>node_id_mapping.get(original_node_id, original_node_id)\<close> is \<open>remap\<close>.
\<close>

definition remap :: "(string \<times> string) list \<Rightarrow> string \<Rightarrow> string" where
  "remap id_mapping original_node_id =
     get_or (map_of id_mapping original_node_id) original_node_id"

text \<open>\<open>original_metadata.get('columns', [])\<close> and \<open>original_metadata.get('sourceMapping', [])\<close>.\<close>

definition original_columns :: "node \<Rightarrow> column list" where
  "original_columns original_node_data =
     (case nd_metadata original_node_data of None \<Rightarrow> []
      | Some original_metadata \<Rightarrow> get_list (md_columns original_metadata))"

definition original_source_mapping :: "node \<Rightarrow> source_mapping list" where
  "original_source_mapping original_node_data =
     (case nd_metadata original_node_data of None \<Rightarrow> []
      | Some original_metadata \<Rightarrow> get_list (md_sourceMapping original_metadata))"

text \<open>The guard \<open>if original_node_id and column_id\<close> of a column reference.\<close>

definition complete_reference :: "column_reference \<Rightarrow> bool" where
  "complete_reference col_ref \<longleftrightarrow>
     (case ref_nodeID col_ref of None \<Rightarrow> False | Some original_node_id \<Rightarrow> original_node_id \<noteq> []) \<and>
     (case ref_columnID col_ref of None \<Rightarrow> False | Some column_id \<Rightarrow> column_id \<noteq> [])"

text \<open>The reference appended for a column reference that passes the guard.\<close>

definition proper_reference :: "(string \<times> string) list \<Rightarrow> column_reference \<Rightarrow> column_reference" where
  "proper_reference id_mapping col_ref =
     \<lparr>ref_nodeID = map_option (remap id_mapping) (ref_nodeID col_ref),
      ref_columnID = ref_columnID col_ref\<rparr>"

definition proper_source :: "(string \<times> string) list \<Rightarrow> source \<Rightarrow> source" where
  "proper_source id_mapping src =
     \<lparr>src_transform = Some (get_or (src_transform src) ''''),
      src_columnReferences =
        Some (map (proper_reference id_mapping)
                (filter complete_reference (get_list (src_columnReferences src))))\<rparr>"

definition proper_column :: "(string \<times> string) list \<Rightarrow> column \<Rightarrow> column" where
  "proper_column id_mapping col =
     \<lparr>col_name = Some (get_or (col_name col) ''UNKNOWN_COLUMN''),
      col_dataType = Some (get_or (col_dataType col) ''VARCHAR''),
      col_nullable = Some (get_or (col_nullable col) True),
      col_description = Some (get_or (col_description col) ''''),
      col_columnID = map_option (\<lambda>i. PStr (py_str i)) (col_columnID col),
      col_defaultValue =
        (case col_defaultValue col of None \<Rightarrow> None
         | Some v \<Rightarrow> if truthy v then map_option JStr (str_simple v) else None),
      col_primaryKey =
        (case col_primaryKey col of None \<Rightarrow> None
         | Some v \<Rightarrow> if is_bool v then Some v else None),
      col_sources =
        (if get_list (col_sources col) \<noteq> []
         then Some (map (proper_source id_mapping) (get_list (col_sources col)))
         else None),
      col_config =
        (case col_config col of None \<Rightarrow> None
         | Some v \<Rightarrow> if is_dict v then Some v else None)\<rparr>"

definition proper_source_map :: "(string \<times> string) list \<Rightarrow> source_mapping \<Rightarrow> source_mapping" where
  "proper_source_map id_mapping source_map =
     \<lparr>sm_aliases =
        Some (map (\<lambda>(alias_name, original_node_id).
                     (alias_name, remap id_mapping original_node_id))
                (get_list (sm_aliases source_map))),
      sm_customSQL = Some (get_or (sm_customSQL source_map) (JDict [(''customSQL'', JStr '''')])),
      sm_dependencies = Some (get_or (sm_dependencies source_map) (JList [])),
      sm_join = Some (get_or (sm_join source_map) (JDict [])),
      sm_name = Some (get_or (sm_name source_map) ''default''),
      sm_noLinkRefs = Some (get_or (sm_noLinkRefs source_map) (JList []))\<rparr>"

definition build_proper_metadata :: "node \<Rightarrow> (string \<times> string) list \<Rightarrow> metadata option" where
  "build_proper_metadata original_node_data id_mapping =
     (if original_columns original_node_data = [] then None
      else
        (let proper_columns = map (proper_column id_mapping) (original_columns original_node_data);
             proper_source_mapping =
               map (proper_source_map id_mapping) (original_source_mapping original_node_data)
         in Some
              \<lparr>md_columns = Some proper_columns,
               md_sourceMapping =
                 (if proper_source_mapping \<noteq> [] then Some proper_source_mapping else None),
               md_cteString = Option.bind (nd_metadata original_node_data) md_cteString,
               md_appliedNodeTests =
                 Option.bind (nd_metadata original_node_data) md_appliedNodeTests,
               md_enabledColumnTestIDs =
                 Option.bind (nd_metadata original_node_data) md_enabledColumnTestIDs\<rparr>))"

subsection \<open>A node with lineage\<close>

text \<open>
  A node with two columns. The first has the default value \<open>0\<close> and one source
  with three references: to a node in the mapping, to a node that is not, and one
  without a column id. The second has no name and the default value \<open>5\<close>. The
  source mapping has one alias for each of the two nodes.
\<close>

definition ex_lineage :: node where
  "ex_lineage =
     \<lparr>nd_name = Some ''FACT'', nd_nodeType = Some ''Fact'', nd_type = None,
      nd_metadata = Some
        \<lparr>md_columns = Some
           [\<lparr>col_name = Some ''AMOUNT'', col_dataType = Some ''NUMBER'', col_nullable = Some False,
             col_description = Some ''amount'', col_columnID = Some (PInt 7),
             col_defaultValue = Some (JInt 0), col_primaryKey = None,
             col_sources = Some
               [\<lparr>src_transform = Some ''SUM(x)'',
                 src_columnReferences = Some
                   [\<lparr>ref_nodeID = Some ''old-1'', ref_columnID = Some ''c1''\<rparr>,
                    \<lparr>ref_nodeID = Some ''ext-9'', ref_columnID = Some ''c2''\<rparr>,
                    \<lparr>ref_nodeID = Some ''old-1'', ref_columnID = None\<rparr>]\<rparr>],
             col_config = None\<rparr>,
            \<lparr>col_name = None, col_dataType = None, col_nullable = None,
             col_description = None, col_columnID = None,
             col_defaultValue = Some (JInt 5), col_primaryKey = None,
             col_sources = None, col_config = None\<rparr>],
         md_sourceMapping = Some
           [\<lparr>sm_aliases = Some [(''a'', ''old-1''), (''b'', ''ext-9'')], sm_customSQL = None,
             sm_dependencies = None, sm_join = None, sm_name = Some ''main'',
             sm_noLinkRefs = None\<rparr>],
         md_cteString = None, md_appliedNodeTests = None, md_enabledColumnTestIDs = None\<rparr>,
      nd_config = None, nd_other = []\<rparr>"

definition ex_id_mapping :: "(string \<times> string) list" where
  "ex_id_mapping = [(''old-1'', ''new-1'')]"

section \<open>Properties of the Subgraph Composer\<close>

lemma merge_loop_prefix:
  "\<exists>ys. merge_loop seen merged xs = merged @ ys"
  by (induction xs arbitrary: seen merged) (auto, metis append.assoc)

lemma merge_loop_set:
  "set (merge_loop (set merged) merged xs) = set merged \<union> set xs"
proof (induction xs arbitrary: merged)
  case Nil
  then show ?case by simp
next
  case (Cons x xs)
  have "set (merge_loop (set (merged @ [x])) (merged @ [x]) xs) = set (merged @ [x]) \<union> set xs"
    by (rule Cons.IH)
  then have "x \<notin> set merged \<Longrightarrow>
      set (merge_loop (insert x (set merged)) (merged @ [x]) xs) = insert x (set merged \<union> set xs)"
    by simp
  with Cons.IH [of merged] show ?case by auto
qed

lemma merge_loop_distinct:
  "distinct merged \<Longrightarrow> distinct (merge_loop (set merged) merged xs)"
proof (induction xs arbitrary: merged)
  case Nil
  then show ?case by simp
next
  case (Cons x xs)
  show ?case
  proof (cases "x \<in> set merged")
    case True
    then show ?thesis using Cons by simp
  next
    case False
    with Cons.prems have "distinct (merged @ [x])" by simp
    then have "distinct (merge_loop (set (merged @ [x])) (merged @ [x]) xs)"
      by (rule Cons.IH)
    then show ?thesis using False by simp
  qed
qed

lemma merge_loop_absorb:
  "set xs \<subseteq> seen \<Longrightarrow> merge_loop seen merged xs = merged"
  by (induction xs arbitrary: seen merged) auto

lemma merge_loop_append:
  "merge_loop seen merged (xs @ ys) =
   merge_loop (seen \<union> set xs) (merge_loop seen merged xs) ys"
proof (induction xs arbitrary: seen merged)
  case Nil
  then show ?case by simp
next
  case (Cons x xs)
  show ?case
  proof (cases "x \<in> seen")
    case True
    then have "seen \<union> set (x # xs) = seen \<union> set xs" by auto
    with True Cons show ?thesis by simp
  next
    case False
    then show ?thesis using Cons by simp
  qed
qed

lemma merge_loop_distinct_id:
  "distinct xs \<Longrightarrow> set xs \<inter> seen = {} \<Longrightarrow> merge_loop seen merged xs = merged @ xs"
  by (induction xs arbitrary: seen merged) auto

lemma remdups_snoc:
  "remdups (zs @ [x]) = remdups (filter (\<lambda>y. y \<noteq> x) zs) @ [x]"
  by (induction zs) auto

lemma merge_loop_first_seen:
  "merge_loop seen merged xs = merged @ rev (remdups (rev (filter (\<lambda>x. x \<notin> seen) xs)))"
proof (induction xs arbitrary: seen merged)
  case Nil
  then show ?case by simp
next
  case (Cons x xs)
  show ?case
  proof (cases "x \<in> seen")
    case True
    then show ?thesis using Cons by simp
  next
    case False
    have f: "filter (\<lambda>y. y \<notin> insert x seen) xs = filter (\<lambda>y. y \<noteq> x) (filter (\<lambda>y. y \<notin> seen) xs)"
      by (induction xs) auto
    have "remdups (rev (filter (\<lambda>y. y \<notin> seen) xs) @ [x]) =
          remdups (filter (\<lambda>y. y \<noteq> x) (rev (filter (\<lambda>y. y \<notin> seen) xs))) @ [x]"
      by (rule remdups_snoc)
    then show ?thesis using False Cons [of "insert x seen" "merged @ [x]"]
      by (simp add: f rev_filter conj_commute)
  qed
qed

lemma merge_steps_as_loop:
  "merge_steps (Some (map PStr r)) m = merge_loop {} [] (r @ normalize_ids m)"
  by (simp add: merge_steps_def comp_def)

text \<open>
  C5. Composer idempotence: merging the mapped members into the output of a first
  merge of the same mapped members changes nothing; the merged list has no
  duplicates and lists the ids of the existing steps followed by the mapped steps
  in the order of their first occurrence.
\<close>

theorem merge_steps_idempotent:
  "merge_steps (Some (map PStr (merge_steps existing_steps mapped_steps))) mapped_steps =
     merge_steps existing_steps mapped_steps
   \<and> distinct (merge_steps existing_steps mapped_steps)
   \<and> merge_steps existing_steps mapped_steps =
       rev (remdups (rev (normalize_ids existing_steps @ normalize_ids mapped_steps)))"
proof -
  let ?E = "normalize_ids existing_steps" and ?M = "normalize_ids mapped_steps"
  let ?R = "merge_loop {} [] (?E @ ?M)"
  have d: "distinct ?R" using merge_loop_distinct [of "[]" "?E @ ?M"] by simp
  have s: "set ?R = set ?E \<union> set ?M" using merge_loop_set [of "[]" "?E @ ?M"] by simp
  have "merge_loop {} [] (?R @ ?M) = merge_loop (set ?R) (merge_loop {} [] ?R) ?M"
    by (simp add: merge_loop_append)
  also have "merge_loop {} [] ?R = ?R" using d by (simp add: merge_loop_distinct_id)
  also have "merge_loop (set ?R) ?R ?M = ?R" using s by (simp add: merge_loop_absorb)
  finally have i: "merge_loop {} [] (?R @ ?M) = ?R" .
  have o: "?R = rev (remdups (rev (?E @ ?M)))"
    using merge_loop_first_seen [of "{}" "[]" "?E @ ?M"] by simp
  show ?thesis
    using i d o unfolding merge_steps_as_loop unfolding merge_steps_def by simp
qed

lemma map_loop_eq:
  "map_loop m refs mapped unmapped ns =
     (mapped @ map (\<lambda>n. the (member_target m refs n))
                 (filter (\<lambda>n. member_target m refs n \<noteq> None) ns),
      unmapped @ map py_str (filter (\<lambda>n. member_target m refs n = None) ns))"
  by (induction ns arbitrary: mapped unmapped)
     (auto simp: member_target_def Let_def split: option.splits)

lemma map_original_steps_eq:
  "map_original_steps m mapped cnt steps =
     (mapped @ map (\<lambda>s. the (m (py_str s))) (filter (\<lambda>s. m (py_str s) \<noteq> None) steps),
      cnt + length (filter (\<lambda>s. m (py_str s) = None) steps))"
  by (induction steps arbitrary: mapped cnt) (auto simp: Let_def split: option.splits)

text \<open>
  C6 (as stated) fails: a member without a mapping entry is left out of the step list
  built by \<open>create_subgraphs_from_original\<close>, and
  \<open>map_and_preserve_all_nodes\<close> replaces it by its \<open>node_references\<close> target
  (without counting it) when there is one.
\<close>

theorem unmapped_member_not_passed_through:
  "map_original_steps Map.empty [] 0 [PStr ''a''] = ([], 1)
   \<and> ''a'' \<notin> set (fst (map_original_steps Map.empty [] 0 [PStr ''a'']))
   \<and> map_and_preserve_all_nodes [PStr ''a''] Map.empty (Some [''a'' \<mapsto> PStr ''stage1''])
       = ([''stage1''], 0)"
  by (simp add: map_and_preserve_all_nodes_def)

text \<open>
  C6 (amended). In \<open>map_and_preserve_all_nodes\<close> every member whose id is a key of
  the mapping contributes its mapped value; a member with no mapping entry
  contributes its \<open>node_references\<close> target when it has one, and otherwise passes
  through unchanged and is counted as unmapped. The output lists the replaced members
  first and the passed-through members after them, so no member is removed. In
  \<open>create_subgraphs_from_original\<close> the members with no mapping entry are counted
  and left out.
\<close>

theorem composer_member_mapping:
  "map_and_preserve_all_nodes original_nodes id_mapping node_references =
     (map (\<lambda>n. the (member_target id_mapping node_references n))
          (filter (\<lambda>n. member_target id_mapping node_references n \<noteq> None) original_nodes)
      @ map py_str
          (filter (\<lambda>n. member_target id_mapping node_references n = None) original_nodes),
      length (filter (\<lambda>n. member_target id_mapping node_references n = None) original_nodes))
   \<and> length (fst (map_and_preserve_all_nodes original_nodes id_mapping node_references))
       = length original_nodes
   \<and> (\<forall>n \<in> set original_nodes. \<forall>v. id_mapping (py_str n) = Some v \<longrightarrow>
         member_target id_mapping node_references n = Some (py_str v) \<and>
         py_str v \<in> set (fst (map_and_preserve_all_nodes original_nodes id_mapping
                                 node_references)))
   \<and> (\<forall>n \<in> set original_nodes.
         id_mapping (py_str n) = None \<and>
         (node_references = None \<or> (\<exists>refs. node_references = Some refs \<and> refs (py_str n) = None))
         \<longrightarrow> py_str n \<in> set (fst (map_and_preserve_all_nodes original_nodes id_mapping
                                     node_references)))
   \<and> map_original_steps creator_mapping [] 0 original_steps =
       (map (\<lambda>s. the (creator_mapping (py_str s)))
            (filter (\<lambda>s. creator_mapping (py_str s) \<noteq> None) original_steps),
        length (filter (\<lambda>s. creator_mapping (py_str s) = None) original_steps))"
proof -
  let ?t = "member_target id_mapping node_references"
  let ?out = "map_and_preserve_all_nodes original_nodes id_mapping node_references"
  have eq: "?out =
     (map (\<lambda>n. the (?t n)) (filter (\<lambda>n. ?t n \<noteq> None) original_nodes)
      @ map py_str (filter (\<lambda>n. ?t n = None) original_nodes),
      length (filter (\<lambda>n. ?t n = None) original_nodes))"
    by (simp add: map_and_preserve_all_nodes_def map_loop_eq)
  have len: "length (fst ?out) = length original_nodes"
    unfolding eq using sum_length_filter_compl [of "\<lambda>n. ?t n \<noteq> None" original_nodes] by simp
  have mapped: "\<forall>n \<in> set original_nodes. \<forall>v. id_mapping (py_str n) = Some v \<longrightarrow>
         ?t n = Some (py_str v) \<and> py_str v \<in> set (fst ?out)"
  proof (intro ballI allI impI)
    fix n v assume n: "n \<in> set original_nodes" and v: "id_mapping (py_str n) = Some v"
    then have t: "?t n = Some (py_str v)" by (simp add: member_target_def)
    with n have "the (?t n) \<in> (\<lambda>n. the (?t n)) ` {x \<in> set original_nodes. ?t x \<noteq> None}"
      by blast
    with t show "?t n = Some (py_str v) \<and> py_str v \<in> set (fst ?out)"
      unfolding eq by simp
  qed
  have passed: "\<forall>n \<in> set original_nodes.
         id_mapping (py_str n) = None \<and>
         (node_references = None \<or> (\<exists>refs. node_references = Some refs \<and> refs (py_str n) = None))
         \<longrightarrow> py_str n \<in> set (fst ?out)"
  proof (intro ballI impI)
    fix n assume n: "n \<in> set original_nodes"
      and h: "id_mapping (py_str n) = None \<and>
         (node_references = None \<or> (\<exists>refs. node_references = Some refs \<and> refs (py_str n) = None))"
    then have "?t n = None" by (auto simp: member_target_def)
    with n show "py_str n \<in> set (fst ?out)" unfolding eq by auto
  qed
  have creator: "map_original_steps creator_mapping [] 0 original_steps =
       (map (\<lambda>s. the (creator_mapping (py_str s)))
            (filter (\<lambda>s. creator_mapping (py_str s) \<noteq> None) original_steps),
        length (filter (\<lambda>s. creator_mapping (py_str s) = None) original_steps))"
    by (simp add: map_original_steps_eq)
  from eq len mapped passed creator show ?thesis by blast
qed

theorem composer_member_mapping_witness:
  "map_and_preserve_all_nodes [PStr ''a'', PInt 7, PStr ''b''] [''a'' \<mapsto> PStr ''new_001''] None
     = ([''new_001'', ''7'', ''b''], 2)
   \<and> ''new_001'' \<in> set (fst (map_and_preserve_all_nodes [PStr ''a'', PInt 7, PStr ''b'']
                               [''a'' \<mapsto> PStr ''new_001''] None))
   \<and> ''b'' \<in> set (fst (map_and_preserve_all_nodes [PStr ''a'', PInt 7, PStr ''b'']
                         [''a'' \<mapsto> PStr ''new_001''] None))
   \<and> map_original_steps [''a'' \<mapsto> ''new_001''] [] 0 [PStr ''a'', PInt 7, PStr ''b'']
       = ([''new_001''], 2)"
  using composer_member_mapping [of "[PStr ''a'', PInt 7, PStr ''b'']"
      "[''a'' \<mapsto> PStr ''new_001'']" None "[''a'' \<mapsto> ''new_001'']"
      "[PStr ''a'', PInt 7, PStr ''b'']"]
  by (simp add: member_target_def str_int_def str_nat.simps)

section \<open>Properties of dependency analysis\<close>

lemmas ex_defs = ex_nodes_def ex_sat_def ex_hub_def ex_self_def mk_node_def mk_metadata_def
  mk_column_def mk_ref_def


lemma set_add_set: "set (set_add s x) = insert x (set s)"
  by (auto simp: set_add_def)

lemma set_add_distinct: "distinct s \<Longrightarrow> distinct (set_add s x)"
  by (simp add: set_add_def)

lemma add_predecessors_set:
  "set (add_predecessors node_id acc refs) =
     set acc \<union> {p. \<exists>r \<in> set refs. ref_nodeID r = Some p \<and> p \<noteq> [] \<and> p \<noteq> node_id}"
proof (induction refs arbitrary: acc)
  case Nil
  then show ?case by simp
next
  case (Cons r refs)
  show ?case
  proof (cases "ref_nodeID r")
    case None
    then show ?thesis using Cons by auto
  next
    case (Some p)
    then show ?thesis using Cons by (auto simp: set_add_set)
  qed
qed

lemma add_predecessors_distinct:
  "distinct acc \<Longrightarrow> distinct (add_predecessors node_id acc refs)"
  by (induction refs arbitrary: acc) (auto simp: set_add_distinct split: option.splits)

lemma node_dependencies_set:
  "set (node_dependencies all_nodes node_id node_data) =
     {p. (\<exists>r \<in> set (node_col_refs node_data). ref_nodeID r = Some p) \<and>
         p \<noteq> [] \<and> p \<noteq> node_id \<and> p \<in> fst ` set all_nodes}"
  by (auto simp: node_dependencies_def add_predecessors_set)

lemma map_of_analyze:
  "map_of (analyze_dependencies all_nodes) node_id =
     map_option (node_dependencies all_nodes node_id) (map_of all_nodes node_id)"
proof -
  have "map_of (map (\<lambda>(k, v). (k, f k v)) xs) node_id = map_option (f node_id) (map_of xs node_id)"
    for f :: "string \<Rightarrow> node \<Rightarrow> string list" and xs
    by (induction xs) auto
  then show ?thesis by (simp add: analyze_dependencies_def)
qed

text \<open>
  C10. The dependency list that \<open>analyze_dependencies\<close> gives a node never holds
  the node's own id and holds only keys of \<open>all_nodes\<close>. So a node whose column
  references all point to itself or outside \<open>all_nodes\<close> has no dependencies: in
  any round in which it is still remaining it is among the ready nodes, whatever the
  mapping holds, and the round creates the ready nodes and does not fall back to the
  nodes with the fewest unsatisfied dependencies.
\<close>

theorem analyze_dependencies_invariant:
  "(\<forall>(node_id, deps) \<in> set (analyze_dependencies all_nodes).
      node_id \<notin> set deps \<and> set deps \<subseteq> fst ` set all_nodes)
   \<and> (map_of all_nodes n = Some nd \<and>
       (\<forall>r \<in> set (node_col_refs nd). \<forall>p. ref_nodeID r = Some p \<longrightarrow>
            p = n \<or> p \<notin> fst ` set all_nodes)
       \<longrightarrow> deps_get (analyze_dependencies all_nodes) n = []
         \<and> (\<forall>st remaining_nodes. (n, nd) \<in> set remaining_nodes \<longrightarrow>
               (n, nd) \<in> set (ready_nodes_of (analyze_dependencies all_nodes) st remaining_nodes)
               \<and> select_ready (analyze_dependencies all_nodes) st remaining_nodes =
                   ready_nodes_of (analyze_dependencies all_nodes) st remaining_nodes))"
proof (intro conjI impI)
  show "\<forall>(node_id, deps) \<in> set (analyze_dependencies all_nodes).
      node_id \<notin> set deps \<and> set deps \<subseteq> fst ` set all_nodes"
    by (auto simp: analyze_dependencies_def node_dependencies_set)
next
  assume h: "map_of all_nodes n = Some nd \<and>
       (\<forall>r \<in> set (node_col_refs nd). \<forall>p. ref_nodeID r = Some p \<longrightarrow>
            p = n \<or> p \<notin> fst ` set all_nodes)"
  then have "set (node_dependencies all_nodes n nd) = {}"
    unfolding node_dependencies_set by blast
  then have "node_dependencies all_nodes n nd = []" by simp
  with h show e: "deps_get (analyze_dependencies all_nodes) n = []"
    by (simp add: deps_get_def map_of_analyze)
  show "\<forall>st remaining_nodes. (n, nd) \<in> set remaining_nodes \<longrightarrow>
               (n, nd) \<in> set (ready_nodes_of (analyze_dependencies all_nodes) st remaining_nodes)
               \<and> select_ready (analyze_dependencies all_nodes) st remaining_nodes =
                   ready_nodes_of (analyze_dependencies all_nodes) st remaining_nodes"
  proof (intro allI impI)
    fix st :: creator and remaining_nodes
    assume m: "(n, nd) \<in> set remaining_nodes"
    have u: "unsatisfied_deps (analyze_dependencies all_nodes) st n = []"
      by (simp add: unsatisfied_deps_def e)
    with m have r: "(n, nd) \<in> set (ready_nodes_of (analyze_dependencies all_nodes) st remaining_nodes)"
      by (simp add: ready_nodes_of_def)
    then have "ready_nodes_of (analyze_dependencies all_nodes) st remaining_nodes \<noteq> []"
      by auto
    then have "select_ready (analyze_dependencies all_nodes) st remaining_nodes =
                   ready_nodes_of (analyze_dependencies all_nodes) st remaining_nodes"
      by (simp add: select_ready_def)
    with r show "(n, nd) \<in> set (ready_nodes_of (analyze_dependencies all_nodes) st remaining_nodes)
               \<and> select_ready (analyze_dependencies all_nodes) st remaining_nodes =
                   ready_nodes_of (analyze_dependencies all_nodes) st remaining_nodes"
      by simp
  qed
qed

theorem analyze_dependencies_invariant_witness:
  "analyze_dependencies ex_nodes = [(''sat'', [''hub'']), (''hub'', []), (''self'', [])]
   \<and> deps_get (analyze_dependencies ex_nodes) ''self'' = []
   \<and> (''self'', ex_self) \<in> set (ready_nodes_of (analyze_dependencies ex_nodes) new_creator ex_nodes)
   \<and> select_ready (analyze_dependencies ex_nodes) new_creator ex_nodes
       = [(''hub'', ex_hub), (''self'', ex_self)]"
proof -
  have h: "map_of ex_nodes ''self'' = Some ex_self \<and>
       (\<forall>r \<in> set (node_col_refs ex_self). \<forall>p. ref_nodeID r = Some p \<longrightarrow>
            p = ''self'' \<or> p \<notin> fst ` set ex_nodes)"
    by (simp add: node_col_refs_def ex_defs)
  have m: "(''self'', ex_self) \<in> set ex_nodes" by (simp add: ex_nodes_def)
  have a: "analyze_dependencies ex_nodes = [(''sat'', [''hub'']), (''hub'', []), (''self'', [])]"
    by (simp add: analyze_dependencies_def node_dependencies_def node_col_refs_def set_add_def ex_defs)
  have r: "ready_nodes_of (analyze_dependencies ex_nodes) new_creator ex_nodes
       = [(''hub'', ex_hub), (''self'', ex_self)]"
    unfolding a
    by (simp add: ready_nodes_of_def unsatisfied_deps_def deps_get_def in_mapping_def
        new_creator_def ex_nodes_def)
  from analyze_dependencies_invariant [of ex_nodes "''self''" ex_self] h m
  have "deps_get (analyze_dependencies ex_nodes) ''self'' = []
     \<and> (''self'', ex_self) \<in> set (ready_nodes_of (analyze_dependencies ex_nodes) new_creator ex_nodes)
     \<and> select_ready (analyze_dependencies ex_nodes) new_creator ex_nodes =
         ready_nodes_of (analyze_dependencies ex_nodes) new_creator ex_nodes"
    by blast
  with a r show ?thesis by simp
qed

section \<open>Properties of the Creation Scheduler\<close>

subsection \<open>One call of \<open>create_node_via_api\<close>\<close>

lemmas cna_defs = create_node_via_api_def step2_def step2b_def finish_created_def
  on_exception_def send_def Let_def

lemma map_of_update_other: "k \<noteq> n \<Longrightarrow> map_of (AList.update n v al) k = map_of al k"
  by (simp add: update_conv')




lemma cna_errors:
  "create_node_via_api P ws n nd preds dry st = (r, st') \<Longrightarrow>
   \<exists>es. creation_errors st' = creation_errors st @ es \<and> length es \<le> 1 \<and>
        (\<forall>e \<in> set es. err_original_id e = n \<and>
            (err_type e = node_creation \<longrightarrow> node_id_mapping st' = node_id_mapping st \<and> r = None))"
  by (auto simp: cna_defs split: response.splits option.splits if_splits prod.splits)



subsection \<open>Selecting the nodes of a round\<close>








subsection \<open>One round\<close>

lemma create_ready_Cons:
  "create_node_via_api P ws n nd (mapped_deps deps st n) dry st = (r, st') \<Longrightarrow>
   create_ready P ws deps dry ((n, nd) # sel) (st, rem, cc, rs) =
     create_ready P ws deps dry sel
       (st', filter (\<lambda>(nid, d). nid \<noteq> n) rem,
        if r \<noteq> None then cc + 1 else cc, if r \<noteq> None then rs + 1 else rs)"
  by (simp add: Let_def)







lemma create_ready_errors:
  "\<exists>es. creation_errors (fst (create_ready P ws deps dry sel (st, rem, cc, rs))) =
          creation_errors st @ es \<and> length es \<le> length sel \<and>
          (\<forall>e \<in> set es. err_original_id e \<in> fst ` set sel)"
proof (induction sel arbitrary: st rem cc rs)
  case Nil
  then show ?case by simp
next
  case (Cons x sel)
  obtain n nd where x: "x = (n, nd)" by (cases x)
  obtain r st' where c: "create_node_via_api P ws n nd (mapped_deps deps st n) dry st = (r, st')"
    by (cases "create_node_via_api P ws n nd (mapped_deps deps st n) dry st")
  from cna_errors [OF c] obtain es1 where
    e1: "creation_errors st' = creation_errors st @ es1" "length es1 \<le> 1"
        "\<forall>e \<in> set es1. err_original_id e = n"
    by blast
  let ?rem = "filter (\<lambda>(nid, d). nid \<noteq> n) rem"
  let ?cc = "if r \<noteq> None then cc + 1 else cc" and ?rs = "if r \<noteq> None then rs + 1 else rs"
  from Cons.IH [of st' ?rem ?cc ?rs] obtain es2 where
    e2: "creation_errors (fst (create_ready P ws deps dry sel (st', ?rem, ?cc, ?rs))) =
           creation_errors st' @ es2" "length es2 \<le> length sel"
        "\<forall>e \<in> set es2. err_original_id e \<in> fst ` set sel"
    by blast
  have step: "create_ready P ws deps dry (x # sel) (st, rem, cc, rs) =
          create_ready P ws deps dry sel (st', ?rem, ?cc, ?rs)"
    unfolding x by (rule create_ready_Cons [OF c])
  show ?case
    unfolding step using e1 e2 x by (intro exI [of _ "es1 @ es2"]) auto
qed








subsection \<open>All rounds\<close>





subsection \<open>The requests of a round\<close>



subsection \<open>When every creation succeeds\<close>






subsection \<open>What a round does\<close>









subsection \<open>The outcome of the scheduler\<close>




section \<open>Properties of the Node Store\<close>

text \<open>
  C9 (as stated) fails. Only a successful read is cached: a read that failed is
  performed again at the next call for the same pair, and its failure is recorded
  again. And the cache is keyed by the text \<open>workspace_id + "_" + node_id\<close>, which
  two different pairs can share: after node \<open>c\<close> of workspace \<open>a_b\<close> has been
  read, the call for node \<open>b_c\<close> of workspace \<open>a\<close>, a pair never fetched before
  and unknown to the platform, performs no remote read and returns that node.
\<close>

theorem failed_read_repeated_and_key_shared:
  "reads_sent (snd (get_node_details ex_remote ''ws'' uuid_c
                      (snd (get_node_details ex_remote ''ws'' uuid_c new_store)))) =
     [(''ws'', uuid_c), (''ws'', uuid_c)]
   \<and> failed_node_downloads (snd (get_node_details ex_remote ''ws'' uuid_c
                      (snd (get_node_details ex_remote ''ws'' uuid_c new_store)))) =
     [\<lparr>df_node_id = uuid_c, df_error = ''connection reset''\<rparr>,
      \<lparr>df_node_id = uuid_c, df_error = ''connection reset''\<rparr>]
   \<and> ex_remote_one ''a'' ''b_c'' = GetResponse 404 empty_node
   \<and> get_node_details ex_remote_one ''a'' ''b_c''
         (snd (get_node_details ex_remote_one ''a_b'' ''c'' new_store)) =
       (Some node_a,
        \<lparr>node_cache = [(''a_b_c'', node_a)], failed_node_downloads = [],
         reads_sent = [(''a_b'', ''c'')]\<rparr>)"
  by code_simp

text \<open>
  C9 (amended). For every workspace id, node id and store: when the cache has an
  entry under the key \<open>workspace_id + "_" + node_id\<close>, the call returns that entry
  and changes nothing, with no remote read. Otherwise it performs one remote read.
  If the read is answered with status 200, the call returns the node, stores it in
  the cache under that key and records no failure. If it is answered with any
  other status, or the read raises, the call returns \<open>None\<close>, appends one entry to
  \<open>failed_node_downloads\<close> (the node id with \<open>HTTP\<close> and the status, or with the
  text of the exception) and leaves the cache as it was. Every case returns: no
  exception leaves the call.
\<close>

theorem get_node_details_contract:
  "(map_of (node_cache st) (cache_key workspace_id node_id) = Some cached \<longrightarrow>
      get_node_details remote workspace_id node_id st = (Some cached, st))
   \<and> (map_of (node_cache st) (cache_key workspace_id node_id) = None \<longrightarrow>
      reads_sent (snd (get_node_details remote workspace_id node_id st)) =
        reads_sent st @ [(workspace_id, node_id)]
      \<and> (remote workspace_id node_id = GetResponse 200 node_info \<longrightarrow>
          fst (get_node_details remote workspace_id node_id st) = Some node_info \<and>
          node_cache (snd (get_node_details remote workspace_id node_id st)) =
            AList.update (cache_key workspace_id node_id) node_info (node_cache st) \<and>
          failed_node_downloads (snd (get_node_details remote workspace_id node_id st)) =
            failed_node_downloads st)
      \<and> (remote workspace_id node_id = GetResponse status_code node_info \<and>
          status_code \<noteq> 200 \<longrightarrow>
          fst (get_node_details remote workspace_id node_id st) = None \<and>
          node_cache (snd (get_node_details remote workspace_id node_id st)) = node_cache st \<and>
          failed_node_downloads (snd (get_node_details remote workspace_id node_id st)) =
            failed_node_downloads st @
            [\<lparr>df_node_id = node_id, df_error = ''HTTP '' @ str_nat status_code\<rparr>])
      \<and> (remote workspace_id node_id = GetRaises e \<longrightarrow>
          fst (get_node_details remote workspace_id node_id st) = None \<and>
          node_cache (snd (get_node_details remote workspace_id node_id st)) = node_cache st \<and>
          failed_node_downloads (snd (get_node_details remote workspace_id node_id st)) =
            failed_node_downloads st @ [\<lparr>df_node_id = node_id, df_error = e\<rparr>]))"
  by (auto simp: get_node_details_def record_failure_def Let_def split: get_response.splits)

theorem get_node_details_contract_witness:
  "get_node_details ex_remote ''ws'' uuid_a
     \<lparr>node_cache = [(cache_key ''ws'' uuid_a, node_b)], failed_node_downloads = [],
      reads_sent = []\<rparr> =
     (Some node_b, \<lparr>node_cache = [(cache_key ''ws'' uuid_a, node_b)],
                    failed_node_downloads = [], reads_sent = []\<rparr>)
   \<and> fst (get_node_details ex_remote ''ws'' uuid_a new_store) = Some node_a
   \<and> node_cache (snd (get_node_details ex_remote ''ws'' uuid_a new_store)) =
       [(cache_key ''ws'' uuid_a, node_a)]
   \<and> reads_sent (snd (get_node_details ex_remote ''ws'' uuid_a new_store)) = [(''ws'', uuid_a)]
   \<and> fst (get_node_details ex_remote ''ws'' uuid_d new_store) = None
   \<and> failed_node_downloads (snd (get_node_details ex_remote ''ws'' uuid_d new_store)) =
       [\<lparr>df_node_id = uuid_d, df_error = ''HTTP 404''\<rparr>]
   \<and> fst (get_node_details ex_remote ''ws'' uuid_c new_store) = None
   \<and> failed_node_downloads (snd (get_node_details ex_remote ''ws'' uuid_c new_store)) =
       [\<lparr>df_node_id = uuid_c, df_error = ''connection reset''\<rparr>]"
proof -
  let ?s = "\<lparr>node_cache = [(cache_key ''ws'' uuid_a, node_b)], failed_node_downloads = [],
             reads_sent = []\<rparr>"
  have h: "map_of (node_cache ?s) (cache_key ''ws'' uuid_a) = Some node_b" by simp
  have n: "map_of (node_cache new_store) (cache_key ''ws'' k) = None" for k
    by (simp add: new_store_def)
  have e: "node_cache new_store = []" "failed_node_downloads new_store = []"
    "reads_sent new_store = []"
    by (simp_all add: new_store_def)
  have ra: "ex_remote ''ws'' uuid_a = GetResponse 200 node_a" by (simp add: ex_remote_def)
  have rd: "ex_remote ''ws'' uuid_d = GetResponse 404 empty_node \<and> (404::nat) \<noteq> 200"
    by code_simp
  have rc: "ex_remote ''ws'' uuid_c = GetRaises ''connection reset''" by code_simp
  have s404: "str_nat 404 = ''404''" by code_simp
  note c1 = get_node_details_contract [THEN conjunct1, rule_format, OF h, of ex_remote]
  note a = get_node_details_contract [THEN conjunct2, rule_format, OF n,
      where remote = ex_remote and node_id = uuid_a and node_info = node_a]
  note d = get_node_details_contract [THEN conjunct2, rule_format, OF n,
      where remote = ex_remote and node_id = uuid_d and node_info = empty_node
        and status_code = 404]
  note c = get_node_details_contract [THEN conjunct2, rule_format, OF n,
      where remote = ex_remote and node_id = uuid_c and e = "''connection reset''"]
  from a ra have a1: "fst (get_node_details ex_remote ''ws'' uuid_a new_store) = Some node_a"
    and a2: "node_cache (snd (get_node_details ex_remote ''ws'' uuid_a new_store)) =
       [(cache_key ''ws'' uuid_a, node_a)]"
    and a3: "reads_sent (snd (get_node_details ex_remote ''ws'' uuid_a new_store)) =
       [(''ws'', uuid_a)]"
    by (simp_all add: e)
  from d rd have d1: "fst (get_node_details ex_remote ''ws'' uuid_d new_store) = None"
    and d2: "failed_node_downloads (snd (get_node_details ex_remote ''ws'' uuid_d new_store)) =
       [\<lparr>df_node_id = uuid_d, df_error = ''HTTP 404''\<rparr>]"
    by (simp_all add: e s404)
  from c rc have c2: "fst (get_node_details ex_remote ''ws'' uuid_c new_store) = None"
    and c3: "failed_node_downloads (snd (get_node_details ex_remote ''ws'' uuid_c new_store)) =
       [\<lparr>df_node_id = uuid_c, df_error = ''connection reset''\<rparr>]"
    by (simp_all add: e)
  from c1 a1 a2 a3 d1 d2 c2 c3 show ?thesis by blast
qed

section \<open>Properties of the Migratability Classifier\<close>

lemma no_word_in_type:
  "\<not> contains ''raw'' ''source''" "\<not> contains ''src_'' ''source''"
  "\<not> contains ''raw'' ''stage''" "\<not> contains ''src_'' ''stage''"
  by code_simp+

lemma categorize_condition:
  "\<not> (node_type \<in> set [''source'', ''stage''] \<and>
      (\<exists>word \<in> set [''raw'', ''src_'']. contains word node_type))"
  using no_word_in_type by auto

lemma categorize_node_manual:
  "fst (snd (categorize_node remote workspace_id node_id s)) = fst (snd s)"
proof -
  obtain api manual failed st where s: "s = (api, manual, failed, st)" by (cases s)
  obtain r st' where g: "get_node_details remote workspace_id node_id st = (r, st')"
    by (cases "get_node_details remote workspace_id node_id st")
  show ?thesis
    unfolding s categorize_node_def
    using categorize_condition
    by (auto simp: g Let_def split: option.splits)
qed

lemma fold_categorize_node_manual:
  "fst (snd (fold (categorize_node remote workspace_id) ids s)) = fst (snd s)"
  by (induction ids arbitrary: s) (simp_all add: categorize_node_manual)

lemma categorize_dependencies_manual:
  "fst (snd (categorize_dependencies remote workspace_id ids st)) = []"
  by (simp add: categorize_dependencies_def fold_categorize_node_manual)

text \<open>
  C3 does not hold of the code. \<open>_categorize_dependencies\<close> puts a node into
  \<open>manual_required\<close> only when its lower-cased type is \<open>source\<close> or \<open>stage\<close> and
  contains \<open>raw\<close> or \<open>src_\<close>, which no text satisfies: for every workspace and
  every set of ids, \<open>manual_required\<close> comes back empty, also from
  \<open>_resolve_all_dependencies\<close>. Node \<open>B\<close> of the snapshot has type \<open>Source\<close>, a
  type that \<open>_is_api_migratable_node\<close> rejects; the classifier puts it into
  \<open>api_migratable\<close>.
\<close>

theorem disallowed_type_classified_migratable:
  "fst (snd (categorize_dependencies remote workspace_id all_dependencies st)) = []
   \<and> manual_required
         (fst (resolve_all_dependencies remote workspace_id initial_nodes max_depth st)) = []
   \<and> ex_remote ''ws'' uuid_b = GetResponse 200 node_b
   \<and> nd_type node_b = Some ''Source''
   \<and> lower ''Source'' \<in> set non_migratable_types
   \<and> \<not> is_api_migratable_node (Some node_b) uuid_b
   \<and> categorize_dependencies ex_remote ''ws'' [uuid_b] new_store =
       ([uuid_b], [], [],
        \<lparr>node_cache = [(cache_key ''ws'' uuid_b, node_b)], failed_node_downloads = [],
         reads_sent = [(''ws'', uuid_b)]\<rparr>)"
proof -
  have a: "fst (snd (categorize_dependencies remote workspace_id all_dependencies st)) = []"
    by (rule categorize_dependencies_manual)
  have b: "manual_required
         (fst (resolve_all_dependencies remote workspace_id initial_nodes max_depth st)) = []"
  proof -
    obtain st1 al pr dp rs where
      d: "discover remote workspace_id initial_nodes max_depth st = (st1, al, pr, dp, rs)"
      by (cases "discover remote workspace_id initial_nodes max_depth st")
    obtain api manual failed st2 where
      c: "categorize_dependencies remote workspace_id al st1 = (api, manual, failed, st2)"
      by (cases "categorize_dependencies remote workspace_id al st1")
    from categorize_dependencies_manual [of remote workspace_id al st1] c
    have "manual = []" by simp
    then show ?thesis by (simp add: resolve_all_dependencies_def d c)
  qed
  have c: "ex_remote ''ws'' uuid_b = GetResponse 200 node_b" by code_simp
  have d: "nd_type node_b = Some ''Source''" by code_simp
  have e: "lower ''Source'' \<in> set non_migratable_types" by code_simp
  have f: "\<not> is_api_migratable_node (Some node_b) uuid_b" by code_simp
  have g: "categorize_dependencies ex_remote ''ws'' [uuid_b] new_store =
       ([uuid_b], [], [],
        \<lparr>node_cache = [(cache_key ''ws'' uuid_b, node_b)], failed_node_downloads = [],
         reads_sent = [(''ws'', uuid_b)]\<rparr>)"
    by code_simp
  from a b c d e f g show ?thesis by (intro conjI)
qed

section \<open>Properties of the Dependency Resolver\<close>







subsection \<open>Running the resolver again\<close>

lemma cache_key_inj: "cache_key ws i = cache_key ws j \<longleftrightarrow> i = j"
  by (simp add: cache_key_def)

lemma get_answer:
  "fst (get_node_details remote ws j st) =
     (case map_of (node_cache st) (cache_key ws j) of
        Some cached \<Rightarrow> Some cached
      | None \<Rightarrow> (case remote ws j of
                   GetRaises e \<Rightarrow> None
                 | GetResponse code nd \<Rightarrow> if code = 200 then Some nd else None))"
  by (simp add: get_node_details_def Let_def split: option.splits get_response.splits)

lemma get_cache:
  "node_cache (snd (get_node_details remote ws i st)) =
     (case map_of (node_cache st) (cache_key ws i) of
        Some cached \<Rightarrow> node_cache st
      | None \<Rightarrow> (case remote ws i of
                   GetRaises e \<Rightarrow> node_cache st
                 | GetResponse code nd \<Rightarrow>
                     if code = 200 then AList.update (cache_key ws i) nd (node_cache st)
                     else node_cache st))"
  by (simp add: get_node_details_def record_failure_def Let_def
      split: option.splits get_response.splits)

lemma get_stable:
  "fst (get_node_details remote ws j (snd (get_node_details remote ws i st))) =
   fst (get_node_details remote ws j st)"
proof (cases "i = j")
  case True
  then show ?thesis
    unfolding get_answer [of remote ws j] get_cache
    by (simp add: update_conv' split: option.splits get_response.splits)
next
  case False
  then have "cache_key ws i \<noteq> cache_key ws j" by (simp add: cache_key_inj)
  then show ?thesis
    unfolding get_answer [of remote ws j] get_cache
    by (simp add: update_conv' split: option.splits get_response.splits)
qed

lemma same_answers_refl: "same_answers remote ws st st"
  by (simp add: same_answers_def)

lemma same_answers_trans:
  "same_answers remote ws a b \<Longrightarrow> same_answers remote ws b c \<Longrightarrow> same_answers remote ws a c"
  by (simp add: same_answers_def)

lemma same_answers_sym: "same_answers remote ws a b \<Longrightarrow> same_answers remote ws b a"
  by (simp add: same_answers_def)

lemma same_answers_after_get:
  "same_answers remote ws st (snd (get_node_details remote ws i st))"
  by (simp add: same_answers_def get_stable)

lemma same_answers_get:
  assumes "same_answers remote ws st st'"
  shows "fst (get_node_details remote ws i st) = fst (get_node_details remote ws i st')"
    and "same_answers remote ws (snd (get_node_details remote ws i st))
           (snd (get_node_details remote ws i st'))"
proof -
  show "fst (get_node_details remote ws i st) = fst (get_node_details remote ws i st')"
    using assms by (simp add: same_answers_def)
  have "same_answers remote ws (snd (get_node_details remote ws i st)) st"
    by (rule same_answers_sym [OF same_answers_after_get])
  from same_answers_trans [OF this assms]
  show "same_answers remote ws (snd (get_node_details remote ws i st))
           (snd (get_node_details remote ws i st'))"
    using same_answers_after_get same_answers_trans by blast
qed

lemma process_node_eq:
  "process_node remote ws x (st, nd, pr) =
     (snd (get_node_details remote ws x st),
      (if (case fst (get_node_details remote ws x st) of None \<Rightarrow> False
           | Some n \<Rightarrow> node_truthy n)
       then set_update nd (extract_dependencies_from_node
                             (fst (get_node_details remote ws x st)))
       else nd),
      set_add pr x)"
  by (simp add: process_node_def split: prod.splits)

lemma fold_process_node_same:
  assumes "same_answers remote ws st st'"
  shows "snd (fold (process_node remote ws) xs (st, nd, pr)) =
         snd (fold (process_node remote ws) xs (st', nd, pr)) \<and>
         same_answers remote ws (fst (fold (process_node remote ws) xs (st, nd, pr)))
           (fst (fold (process_node remote ws) xs (st', nd, pr)))"
  using assms
proof (induction xs arbitrary: st st' nd pr)
  case Nil
  then show ?case by simp
next
  case (Cons x xs)
  note g = same_answers_get [OF Cons.prems, of x]
  show ?case
    unfolding fold_simps process_node_eq g(1)
    by (rule Cons.IH [OF g(2)])
qed

lemma fold_process_node_stable:
  "same_answers remote ws st (fst (fold (process_node remote ws) xs (st, nd, pr)))"
proof (induction xs arbitrary: st nd pr)
  case Nil
  then show ?case by (simp add: same_answers_refl)
next
  case (Cons x xs)
  show ?case
    unfolding fold_simps process_node_eq
    by (rule same_answers_trans [OF same_answers_after_get Cons.IH])
qed

lemma resolve_loop_same:
  assumes "same_answers remote ws st st'"
  shows "snd (resolve_loop fuel remote ws (st, al, pr, d, rs)) =
         snd (resolve_loop fuel remote ws (st', al, pr, d, rs)) \<and>
         same_answers remote ws (fst (resolve_loop fuel remote ws (st, al, pr, d, rs)))
           (fst (resolve_loop fuel remote ws (st', al, pr, d, rs)))"
  using assms
proof (induction fuel arbitrary: st st' al pr d rs)
  case 0
  then show ?case by simp
next
  case (Suc fuel)
  let ?tp = "filter (\<lambda>n. n \<notin> set pr) al"
  show ?case
  proof (cases "?tp = []")
    case True
    then show ?thesis using Suc.prems by simp
  next
    case False
    obtain s1 nd1 pr1 where
      f1: "fold (process_node remote ws) ?tp (st, [], pr) = (s1, nd1, pr1)"
      by (cases "fold (process_node remote ws) ?tp (st, [], pr)")
    obtain s2 nd2 pr2 where
      f2: "fold (process_node remote ws) ?tp (st', [], pr) = (s2, nd2, pr2)"
      by (cases "fold (process_node remote ws) ?tp (st', [], pr)")
    from fold_process_node_same [OF Suc.prems, of ?tp "[]" pr] f1 f2
    have e: "nd2 = nd1" "pr2 = pr1" and s: "same_answers remote ws s1 s2" by simp_all
    show ?thesis
    proof (cases "nd1 = []")
      case True
      then show ?thesis using False f1 f2 e s by (simp add: Let_def)
    next
      case nonempty: False
      from Suc.IH [OF s] show ?thesis using False f1 f2 e nonempty by (simp add: Let_def)
    qed
  qed
qed

lemma resolve_loop_stable:
  "same_answers remote ws st (fst (resolve_loop fuel remote ws (st, al, pr, d, rs)))"
proof (induction fuel arbitrary: st al pr d rs)
  case 0
  then show ?case by (simp add: same_answers_refl)
next
  case (Suc fuel)
  let ?tp = "filter (\<lambda>n. n \<notin> set pr) al"
  show ?case
  proof (cases "?tp = []")
    case True
    then show ?thesis by (simp add: same_answers_refl)
  next
    case False
    obtain s1 nd1 pr1 where
      f1: "fold (process_node remote ws) ?tp (st, [], pr) = (s1, nd1, pr1)"
      by (cases "fold (process_node remote ws) ?tp (st, [], pr)")
    from fold_process_node_stable [of remote ws st ?tp "[]" pr] f1
    have s: "same_answers remote ws st s1" by simp
    show ?thesis
    proof (cases "nd1 = []")
      case True
      then show ?thesis using False f1 s by (simp add: Let_def)
    next
      case nonempty: False
      have "same_answers remote ws st
              (fst (resolve_loop fuel remote ws
                      (s1, set_update al nd1, pr1, d + 1, rs @ [?tp])))"
        by (rule same_answers_trans [OF s Suc.IH])
      then show ?thesis using False f1 nonempty by (simp add: Let_def)
    qed
  qed
qed

lemma categorize_node_same:
  assumes "same_answers remote ws st st'"
  shows "\<exists>a m f s1 s2.
           categorize_node remote ws x (api, man, fail, st) = (a, m, f, s1) \<and>
           categorize_node remote ws x (api, man, fail, st') = (a, m, f, s2) \<and>
           same_answers remote ws s1 s2"
proof -
  obtain r s1 where g1: "get_node_details remote ws x st = (r, s1)"
    by (cases "get_node_details remote ws x st")
  obtain r' s2 where g2: "get_node_details remote ws x st' = (r', s2)"
    by (cases "get_node_details remote ws x st'")
  from same_answers_get [OF assms, of x] g1 g2
  have r: "r' = r" and s: "same_answers remote ws s1 s2" by simp_all
  show ?thesis
    unfolding categorize_node_def
    using assms s
    by (simp add: g1 g2 r Let_def split: option.splits)
qed

lemma fold_categorize_node_same:
  assumes "same_answers remote ws st st'"
  shows "\<exists>a m f s1 s2.
           fold (categorize_node remote ws) xs (api, man, fail, st) = (a, m, f, s1) \<and>
           fold (categorize_node remote ws) xs (api, man, fail, st') = (a, m, f, s2) \<and>
           same_answers remote ws s1 s2"
  using assms
proof (induction xs arbitrary: api man fail st st')
  case Nil
  then show ?case by simp
next
  case (Cons x xs)
  from categorize_node_same [OF Cons.prems, of x api man fail]
  obtain a m f s1 s2 where
    c: "categorize_node remote ws x (api, man, fail, st) = (a, m, f, s1)"
       "categorize_node remote ws x (api, man, fail, st') = (a, m, f, s2)"
       "same_answers remote ws s1 s2"
    by blast
  from Cons.IH [OF c(3), of a m f] show ?case by (simp add: c(1,2))
qed

lemma categorize_node_stable:
  "same_answers remote ws st (snd (snd (snd (categorize_node remote ws x (api, man, fail, st)))))"
proof -
  obtain r s1 where g1: "get_node_details remote ws x st = (r, s1)"
    by (cases "get_node_details remote ws x st")
  from same_answers_after_get [of remote ws st x] g1
  have s: "same_answers remote ws st s1" by simp
  show ?thesis
    unfolding categorize_node_def
    using s by (simp add: g1 Let_def same_answers_refl split: option.splits)
qed

lemma fold_categorize_node_stable:
  "same_answers remote ws st
     (snd (snd (snd (fold (categorize_node remote ws) xs (api, man, fail, st)))))"
proof (induction xs arbitrary: api man fail st)
  case Nil
  then show ?case by (simp add: same_answers_refl)
next
  case (Cons x xs)
  obtain a m f s1 where
    c: "categorize_node remote ws x (api, man, fail, st) = (a, m, f, s1)"
    by (cases "categorize_node remote ws x (api, man, fail, st)")
  from categorize_node_stable [of remote ws st x api man fail] c
  have s: "same_answers remote ws st s1" by simp
  from same_answers_trans [OF s Cons.IH [of s1 a m f]]
  show ?case by (simp add: c)
qed

lemma resolve_all_same:
  assumes "same_answers remote ws st st'"
  shows "fst (resolve_all_dependencies remote ws seeds max_depth st) =
         fst (resolve_all_dependencies remote ws seeds max_depth st')"
proof -
  let ?s0 = "set_update [] (map py_str seeds)"
  obtain s1 al pr d rs where
    l1: "resolve_loop max_depth remote ws (st, ?s0, [], 0, []) = (s1, al, pr, d, rs)"
    by (cases "resolve_loop max_depth remote ws (st, ?s0, [], 0, [])")
  obtain s2 al2 pr2 d2 rs2 where
    l2: "resolve_loop max_depth remote ws (st', ?s0, [], 0, []) = (s2, al2, pr2, d2, rs2)"
    by (cases "resolve_loop max_depth remote ws (st', ?s0, [], 0, [])")
  from resolve_loop_same [OF assms, of max_depth ?s0 "[]" 0 "[]"] l1 l2
  have e: "al2 = al" and s: "same_answers remote ws s1 s2" by simp_all
  from fold_categorize_node_same [OF s, of al "[]" "[]" "[]"]
  obtain a m f t1 t2 where
    c: "categorize_dependencies remote ws al s1 = (a, m, f, t1)"
       "categorize_dependencies remote ws al s2 = (a, m, f, t2)"
    unfolding categorize_dependencies_def by blast
  show ?thesis
    by (simp add: resolve_all_dependencies_def discover_def l1 l2 e c)
qed

lemma resolve_all_stable:
  "same_answers remote ws st (snd (resolve_all_dependencies remote ws seeds max_depth st))"
proof -
  let ?s0 = "set_update [] (map py_str seeds)"
  obtain s1 al pr d rs where
    l1: "resolve_loop max_depth remote ws (st, ?s0, [], 0, []) = (s1, al, pr, d, rs)"
    by (cases "resolve_loop max_depth remote ws (st, ?s0, [], 0, [])")
  from resolve_loop_stable [of remote ws st max_depth ?s0 "[]" 0 "[]"] l1
  have s: "same_answers remote ws st s1" by simp
  obtain a m f t1 where c: "categorize_dependencies remote ws al s1 = (a, m, f, t1)"
    by (cases "categorize_dependencies remote ws al s1")
  from fold_categorize_node_stable [of remote ws s1 al "[]" "[]" "[]"] c
  have "same_answers remote ws s1 t1" by (simp add: categorize_dependencies_def)
  with s have "same_answers remote ws st t1" by (rule same_answers_trans)
  then show ?thesis by (simp add: resolve_all_dependencies_def discover_def l1 c)
qed

lemma same_cache_same_answers:
  "node_cache st = node_cache st' \<Longrightarrow> same_answers remote ws st st'"
  by (simp add: same_answers_def get_answer)

text \<open>
  C8. For every workspace snapshot, workspace id, seed list, depth bound and store:
  running \<open>_resolve_all_dependencies\<close> a second time, from the store that the
  first run has left, returns the same discovered set as the first run (and the
  same classification). And the result of a run that starts with an empty cache
  does not depend on anything else in the store: it is determined by the snapshot,
  the workspace id, the seeds and the depth bound.
\<close>

theorem discovery_idempotent:
  "all_discovered
     (fst (resolve_all_dependencies remote workspace_id initial_nodes max_depth
             (snd (resolve_all_dependencies remote workspace_id initial_nodes max_depth st)))) =
   all_discovered (fst (resolve_all_dependencies remote workspace_id initial_nodes max_depth st))
   \<and> fst (resolve_all_dependencies remote workspace_id initial_nodes max_depth
             (snd (resolve_all_dependencies remote workspace_id initial_nodes max_depth st))) =
     fst (resolve_all_dependencies remote workspace_id initial_nodes max_depth st)
   \<and> fst (resolve_all_dependencies remote workspace_id initial_nodes max_depth
            (st\<lparr>node_cache := []\<rparr>)) =
     fst (resolve_all_dependencies remote workspace_id initial_nodes max_depth new_store)"
proof -
  have a: "fst (resolve_all_dependencies remote workspace_id initial_nodes max_depth
             (snd (resolve_all_dependencies remote workspace_id initial_nodes max_depth st))) =
     fst (resolve_all_dependencies remote workspace_id initial_nodes max_depth st)"
    by (rule resolve_all_same [OF same_answers_sym [OF resolve_all_stable]])
  have b: "fst (resolve_all_dependencies remote workspace_id initial_nodes max_depth
            (st\<lparr>node_cache := []\<rparr>)) =
     fst (resolve_all_dependencies remote workspace_id initial_nodes max_depth new_store)"
    by (rule resolve_all_same [OF same_cache_same_answers]) (simp add: new_store_def)
  from a b show ?thesis by simp
qed

theorem discovery_idempotent_witness:
  "all_discovered
     (fst (resolve_all_dependencies ex_remote ''ws'' [PStr uuid_a] 10
             (snd (resolve_all_dependencies ex_remote ''ws'' [PStr uuid_a] 10 new_store)))) =
     [uuid_a, uuid_b, uuid_c]
   \<and> node_cache (snd (resolve_all_dependencies ex_remote ''ws'' [PStr uuid_a] 10 new_store)) =
     [(cache_key ''ws'' uuid_a, node_a), (cache_key ''ws'' uuid_b, node_b)]"
proof -
  have e: "all_discovered (fst (resolve_all_dependencies ex_remote ''ws'' [PStr uuid_a] 10
                                  new_store)) = [uuid_a, uuid_b, uuid_c]"
    by code_simp
  have c: "node_cache (snd (resolve_all_dependencies ex_remote ''ws'' [PStr uuid_a] 10
                              new_store)) =
     [(cache_key ''ws'' uuid_a, node_a), (cache_key ''ws'' uuid_b, node_b)]"
    by code_simp
  from discovery_idempotent [where remote = ex_remote and workspace_id = "''ws''"
      and initial_nodes = "[PStr uuid_a]" and max_depth = 10 and st = new_store,
      THEN conjunct1]
  have "all_discovered
     (fst (resolve_all_dependencies ex_remote ''ws'' [PStr uuid_a] 10
             (snd (resolve_all_dependencies ex_remote ''ws'' [PStr uuid_a] 10 new_store)))) =
     [uuid_a, uuid_b, uuid_c]"
    unfolding e .
  with c show ?thesis by simp
qed

section \<open>Properties of the Reference Remapper\<close>

lemma build_columns:
  assumes "build_proper_metadata nd m = Some proper"
  shows "get_list (md_columns proper) = map (proper_column m) (original_columns nd)"
    and "get_list (md_sourceMapping proper) =
           map (proper_source_map m) (original_source_mapping nd)"
  using assms
  by (auto simp: build_proper_metadata_def Let_def split: if_splits)

lemma proper_column_sources:
  "get_list (col_sources (proper_column m c)) = map (proper_source m) (get_list (col_sources c))"
  by (simp add: proper_column_def)

lemma proper_source_references:
  "get_list (src_columnReferences (proper_source m s)) =
     map (proper_reference m) (filter complete_reference (get_list (src_columnReferences s)))"
  by (simp add: proper_source_def)

text \<open>
  C1 (as stated) fails. With the mapping \<open>old-1 \<mapsto> new-1\<close>, the first column of
  the node has the default value \<open>0\<close> and the rebuilt column has none; the second
  column has the default value \<open>5\<close> (a number), no name and no data type, and the
  rebuilt column has the default value \<open>"5"\<close> (a text), the name
  \<open>UNKNOWN_COLUMN\<close> and the data type \<open>VARCHAR\<close>; the source of the first column
  has three references and the rebuilt source has two, the reference without a
  column id having no counterpart. A node without columns gives no metadata at all.
\<close>

theorem defaults_and_references_not_preserved:
  "map col_defaultValue (original_columns ex_lineage) = [Some (JInt 0), Some (JInt 5)]
   \<and> map_option (map col_defaultValue \<circ> get_list \<circ> md_columns)
         (build_proper_metadata ex_lineage ex_id_mapping) = Some [None, Some (JStr ''5'')]
   \<and> map col_name (original_columns ex_lineage) = [Some ''AMOUNT'', None]
   \<and> map_option (map col_name \<circ> get_list \<circ> md_columns)
         (build_proper_metadata ex_lineage ex_id_mapping) =
       Some [Some ''AMOUNT'', Some ''UNKNOWN_COLUMN'']
   \<and> map (map (length \<circ> get_list \<circ> src_columnReferences) \<circ> get_list \<circ> col_sources)
         (original_columns ex_lineage) = [[3], []]
   \<and> map_option (map (map (length \<circ> get_list \<circ> src_columnReferences) \<circ> get_list \<circ> col_sources)
                   \<circ> get_list \<circ> md_columns)
         (build_proper_metadata ex_lineage ex_id_mapping) = Some [[2], []]
   \<and> build_proper_metadata empty_node ex_id_mapping = None"
  by code_simp

text \<open>
  C1 (amended). \<open>build_proper_metadata\<close> returns nothing exactly when the node has
  no columns. Otherwise the rebuilt metadata has one column for each input column,
  in order, and one source for each source of a column. A rebuilt source has one
  reference for each input reference that has both a node id and a column id (the
  others are dropped), in order, with the column id unchanged and the node id
  replaced by its mapped value when it is a key of the identifier mapping and
  unchanged when it is not. The same substitution is applied to every alias value
  of every source-mapping entry, the alias names being unchanged. Names, data
  types, nullability, descriptions and transform texts are unchanged when present
  and are \<open>UNKNOWN_COLUMN\<close>, \<open>VARCHAR\<close>, \<open>True\<close>, the empty text and the empty text
  when absent. A default value is kept only when it is truthy and a text, a number
  or a boolean, and is then converted to text.
\<close>

theorem build_proper_metadata_remaps:
  "(build_proper_metadata nd m = None \<longleftrightarrow> original_columns nd = [])
   \<and> (\<forall>proper. build_proper_metadata nd m = Some proper \<longrightarrow>
        length (get_list (md_columns proper)) = length (original_columns nd)
        \<and> (\<forall>i < length (original_columns nd).
             col_name (get_list (md_columns proper) ! i) =
               Some (get_or (col_name (original_columns nd ! i)) ''UNKNOWN_COLUMN'')
             \<and> col_dataType (get_list (md_columns proper) ! i) =
               Some (get_or (col_dataType (original_columns nd ! i)) ''VARCHAR'')
             \<and> col_nullable (get_list (md_columns proper) ! i) =
               Some (get_or (col_nullable (original_columns nd ! i)) True)
             \<and> col_description (get_list (md_columns proper) ! i) =
               Some (get_or (col_description (original_columns nd ! i)) '''')
             \<and> col_defaultValue (get_list (md_columns proper) ! i) =
               (case col_defaultValue (original_columns nd ! i) of
                  None \<Rightarrow> None
                | Some v \<Rightarrow> if truthy v then map_option JStr (str_simple v) else None)
             \<and> length (get_list (col_sources (get_list (md_columns proper) ! i))) =
               length (get_list (col_sources (original_columns nd ! i)))
             \<and> (\<forall>j < length (get_list (col_sources (original_columns nd ! i))).
                  src_transform (get_list (col_sources (get_list (md_columns proper) ! i)) ! j) =
                    Some (get_or (src_transform
                                    (get_list (col_sources (original_columns nd ! i)) ! j)) '''')
                  \<and> map ref_columnID
                        (get_list (src_columnReferences
                           (get_list (col_sources (get_list (md_columns proper) ! i)) ! j))) =
                      map ref_columnID
                        (filter complete_reference
                           (get_list (src_columnReferences
                              (get_list (col_sources (original_columns nd ! i)) ! j))))
                  \<and> map ref_nodeID
                        (get_list (src_columnReferences
                           (get_list (col_sources (get_list (md_columns proper) ! i)) ! j))) =
                      map (\<lambda>col_ref. map_option (remap m) (ref_nodeID col_ref))
                        (filter complete_reference
                           (get_list (src_columnReferences
                              (get_list (col_sources (original_columns nd ! i)) ! j))))))
        \<and> length (get_list (md_sourceMapping proper)) = length (original_source_mapping nd)
        \<and> (\<forall>i < length (original_source_mapping nd).
             sm_aliases (get_list (md_sourceMapping proper) ! i) =
               Some (map (\<lambda>(alias_name, original_node_id).
                            (alias_name, remap m original_node_id))
                       (get_list (sm_aliases (original_source_mapping nd ! i))))))
   \<and> (\<forall>new_node_id. map_of m original_node_id = Some new_node_id \<longrightarrow>
         remap m original_node_id = new_node_id)
   \<and> (map_of m original_node_id = None \<longrightarrow> remap m original_node_id = original_node_id)"
proof -
  have a: "build_proper_metadata nd m = None \<longleftrightarrow> original_columns nd = []"
    by (simp add: build_proper_metadata_def Let_def)
  have c: "\<forall>new_node_id. map_of m original_node_id = Some new_node_id \<longrightarrow>
         remap m original_node_id = new_node_id"
    by (simp add: remap_def)
  have d: "map_of m original_node_id = None \<longrightarrow> remap m original_node_id = original_node_id"
    by (simp add: remap_def)
  have b: "length (get_list (md_columns proper)) = length (original_columns nd)
        \<and> (\<forall>i < length (original_columns nd).
             col_name (get_list (md_columns proper) ! i) =
               Some (get_or (col_name (original_columns nd ! i)) ''UNKNOWN_COLUMN'')
             \<and> col_dataType (get_list (md_columns proper) ! i) =
               Some (get_or (col_dataType (original_columns nd ! i)) ''VARCHAR'')
             \<and> col_nullable (get_list (md_columns proper) ! i) =
               Some (get_or (col_nullable (original_columns nd ! i)) True)
             \<and> col_description (get_list (md_columns proper) ! i) =
               Some (get_or (col_description (original_columns nd ! i)) '''')
             \<and> col_defaultValue (get_list (md_columns proper) ! i) =
               (case col_defaultValue (original_columns nd ! i) of
                  None \<Rightarrow> None
                | Some v \<Rightarrow> if truthy v then map_option JStr (str_simple v) else None)
             \<and> length (get_list (col_sources (get_list (md_columns proper) ! i))) =
               length (get_list (col_sources (original_columns nd ! i)))
             \<and> (\<forall>j < length (get_list (col_sources (original_columns nd ! i))).
                  src_transform (get_list (col_sources (get_list (md_columns proper) ! i)) ! j) =
                    Some (get_or (src_transform
                                    (get_list (col_sources (original_columns nd ! i)) ! j)) '''')
                  \<and> map ref_columnID
                        (get_list (src_columnReferences
                           (get_list (col_sources (get_list (md_columns proper) ! i)) ! j))) =
                      map ref_columnID
                        (filter complete_reference
                           (get_list (src_columnReferences
                              (get_list (col_sources (original_columns nd ! i)) ! j))))
                  \<and> map ref_nodeID
                        (get_list (src_columnReferences
                           (get_list (col_sources (get_list (md_columns proper) ! i)) ! j))) =
                      map (\<lambda>col_ref. map_option (remap m) (ref_nodeID col_ref))
                        (filter complete_reference
                           (get_list (src_columnReferences
                              (get_list (col_sources (original_columns nd ! i)) ! j))))))
        \<and> length (get_list (md_sourceMapping proper)) = length (original_source_mapping nd)
        \<and> (\<forall>i < length (original_source_mapping nd).
             sm_aliases (get_list (md_sourceMapping proper) ! i) =
               Some (map (\<lambda>(alias_name, original_node_id).
                            (alias_name, remap m original_node_id))
                       (get_list (sm_aliases (original_source_mapping nd ! i)))))"
    if h: "build_proper_metadata nd m = Some proper" for proper
  proof -
    note bc = build_columns [OF h]
    have cols: "\<And>i. i < length (original_columns nd) \<Longrightarrow>
        get_list (md_columns proper) ! i = proper_column m (original_columns nd ! i)"
      by (simp add: bc(1))
    have srcs: "\<And>c j. j < length (get_list (col_sources c)) \<Longrightarrow>
        get_list (col_sources (proper_column m c)) ! j =
          proper_source m (get_list (col_sources c) ! j)"
      by (simp add: proper_column_sources)
    have sms: "\<And>i. i < length (original_source_mapping nd) \<Longrightarrow>
        get_list (md_sourceMapping proper) ! i =
          proper_source_map m (original_source_mapping nd ! i)"
      by (simp add: bc(2))
    have l1: "length (get_list (md_columns proper)) = length (original_columns nd)"
      by (simp add: bc(1))
    have l2: "length (get_list (md_sourceMapping proper)) = length (original_source_mapping nd)"
      by (simp add: bc(2))
    have pc: "col_name (proper_column m c) = Some (get_or (col_name c) ''UNKNOWN_COLUMN'')
        \<and> col_dataType (proper_column m c) = Some (get_or (col_dataType c) ''VARCHAR'')
        \<and> col_nullable (proper_column m c) = Some (get_or (col_nullable c) True)
        \<and> col_description (proper_column m c) = Some (get_or (col_description c) '''')
        \<and> col_defaultValue (proper_column m c) =
               (case col_defaultValue c of
                  None \<Rightarrow> None
                | Some v \<Rightarrow> if truthy v then map_option JStr (str_simple v) else None)
        \<and> length (get_list (col_sources (proper_column m c))) =
               length (get_list (col_sources c))" for c
      by (simp add: proper_column_def)
    have ps: "src_transform (proper_source m s) = Some (get_or (src_transform s) '''')
        \<and> map ref_columnID (get_list (src_columnReferences (proper_source m s))) =
            map ref_columnID (filter complete_reference (get_list (src_columnReferences s)))
        \<and> map ref_nodeID (get_list (src_columnReferences (proper_source m s))) =
            map (\<lambda>col_ref. map_option (remap m) (ref_nodeID col_ref))
              (filter complete_reference (get_list (src_columnReferences s)))" for s
      by (simp add: proper_source_def proper_reference_def comp_def)
    have pm: "sm_aliases (proper_source_map m sm) =
               Some (map (\<lambda>(alias_name, original_node_id).
                            (alias_name, remap m original_node_id))
                       (get_list (sm_aliases sm)))" for sm
      by (simp add: proper_source_map_def)
    show ?thesis
      using l1 l2 by (simp add: cols srcs sms pc ps pm)
  qed
  from a b c d show ?thesis by blast
qed

theorem build_proper_metadata_remaps_witness:
  "col_name (get_list (md_columns (the (build_proper_metadata ex_lineage ex_id_mapping))) ! 0) =
     Some ''AMOUNT''
   \<and> map ref_nodeID
        (get_list (src_columnReferences
           (get_list (col_sources
              (get_list (md_columns (the (build_proper_metadata ex_lineage ex_id_mapping))) ! 0))
            ! 0))) = [Some ''new-1'', Some ''ext-9'']
   \<and> sm_aliases
        (get_list (md_sourceMapping (the (build_proper_metadata ex_lineage ex_id_mapping))) ! 0) =
       Some [(''a'', ''new-1''), (''b'', ''ext-9'')]
   \<and> remap ex_id_mapping ''old-1'' = ''new-1''
   \<and> remap ex_id_mapping ''ext-9'' = ''ext-9''"
proof -
  note t = build_proper_metadata_remaps [where nd = ex_lineage and m = ex_id_mapping
      and original_node_id = "''old-1''"]
  note u = build_proper_metadata_remaps [where nd = ex_lineage and m = ex_id_mapping
      and original_node_id = "''ext-9''"]
  have ne: "original_columns ex_lineage \<noteq> []" by code_simp
  with t [THEN conjunct1] obtain proper where
    p: "build_proper_metadata ex_lineage ex_id_mapping = Some proper"
    by blast
  have i0: "0 < length (original_columns ex_lineage)" by code_simp
  have j0: "0 < length (get_list (col_sources (original_columns ex_lineage ! 0)))" by code_simp
  have k0: "0 < length (original_source_mapping ex_lineage)" by code_simp
  have mo: "map_of ex_id_mapping ''old-1'' = Some ''new-1''" by code_simp
  have mn: "map_of ex_id_mapping ''ext-9'' = None" by code_simp
  note t2 = t [THEN conjunct2, THEN conjunct1, rule_format, OF p]
  note c0 = t2 [THEN conjunct2, THEN conjunct1, rule_format, OF i0]
  note s0 = c0 [THEN conjunct2, THEN conjunct2, THEN conjunct2, THEN conjunct2, THEN conjunct2,
      THEN conjunct2, rule_format, OF j0]
  note a0 = t2 [THEN conjunct2, THEN conjunct2, THEN conjunct2, rule_format, OF k0]
  have e1: "Some (get_or (col_name (original_columns ex_lineage ! 0)) ''UNKNOWN_COLUMN'') =
              Some ''AMOUNT''"
    by code_simp
  have e2: "map (\<lambda>col_ref. map_option (remap ex_id_mapping) (ref_nodeID col_ref))
              (filter complete_reference
                 (get_list (src_columnReferences
                    (get_list (col_sources (original_columns ex_lineage ! 0)) ! 0)))) =
            [Some ''new-1'', Some ''ext-9'']"
    by code_simp
  have e3: "Some (map (\<lambda>(alias_name, original_node_id).
                        (alias_name, remap ex_id_mapping original_node_id))
                   (get_list (sm_aliases (original_source_mapping ex_lineage ! 0)))) =
            Some [(''a'', ''new-1''), (''b'', ''ext-9'')]"
    by code_simp
  have w1: "col_name (get_list (md_columns proper) ! 0) = Some ''AMOUNT''"
    using c0 [THEN conjunct1] unfolding e1 .
  have w2: "map ref_nodeID
        (get_list (src_columnReferences
           (get_list (col_sources (get_list (md_columns proper) ! 0)) ! 0))) =
        [Some ''new-1'', Some ''ext-9'']"
    using s0 [THEN conjunct2, THEN conjunct2] unfolding e2 .
  have w3: "sm_aliases (get_list (md_sourceMapping proper) ! 0) =
       Some [(''a'', ''new-1''), (''b'', ''ext-9'')]"
    using a0 unfolding e3 .
  have w4: "remap ex_id_mapping ''old-1'' = ''new-1''"
    by (rule t [THEN conjunct2, THEN conjunct2, THEN conjunct1, rule_format, OF mo])
  have w5: "remap ex_id_mapping ''ext-9'' = ''ext-9''"
    by (rule u [THEN conjunct2, THEN conjunct2, THEN conjunct2, rule_format, OF mn])
  from w1 w2 w3 w4 w5 show ?thesis unfolding p option.sel by (intro conjI)
qed

end
